theory Spec2Isabelle
  imports Complex_Main
begin

section \<open>NumPy arrays over the reals\<close>

text \<open>
  The simulator computes with NumPy arrays of floats. The embedding takes the entries
  to be real numbers: a one-dimensional array is the list of its entries, a
  two-dimensional array is the list of its rows, all of one length. An array without
  rows is the empty list and carries no column count, so a check on the column count
  of such an array passes. Every exception the Python code can raise is a value of
  \<open>error\<close>; a function that can raise returns \<open>error + 'a\<close> with the error on the left.
\<close>

type_synonym vec = "real list"
type_synonym mat = "real list list"

datatype error =
    AssertionError
  | ValueError string
  | IndexError
  | KeyError
  | TypeError
  | AttributeError
  | ZeroDivisionError

definition has_cols :: "mat \<Rightarrow> nat \<Rightarrow> bool" where
  "has_cols M c = (\<forall>r \<in> set M. length r = c)"

definition has_shape :: "mat \<Rightarrow> nat \<Rightarrow> nat \<Rightarrow> bool" where
  "has_shape M r c = (length M = r \<and> has_cols M c)"

definition dot :: "vec \<Rightarrow> vec \<Rightarrow> real" where
  "dot x y = sum_list (map2 (*) x y)"

text \<open>\<open>M @ x\<close> for a two-dimensional \<open>M\<close> and a one-dimensional \<open>x\<close>: NumPy raises
  ValueError unless the rows of \<open>M\<close> are as long as \<open>x\<close>.\<close>

definition matmul_vec :: "mat \<Rightarrow> vec \<Rightarrow> error + vec" where
  "matmul_vec M x =
     (if has_cols M (length x) then Inr (map (\<lambda>r. dot r x) M)
      else Inl (ValueError ''matmul: mismatch in core dimension''))"

text \<open>\<open>x + y\<close> and \<open>x - y\<close> for one-dimensional arrays, with NumPy's broadcasting: equal
  lengths combine entry by entry, an array of length one is stretched over the other,
  anything else raises ValueError.\<close>

definition broadcastable :: "nat \<Rightarrow> nat \<Rightarrow> bool" where
  "broadcastable m n = (m = n \<or> m = 1 \<or> n = 1)"

definition stretch2 :: "(real \<Rightarrow> real \<Rightarrow> real) \<Rightarrow> vec \<Rightarrow> vec \<Rightarrow> vec" where
  "stretch2 f x y =
     (if length x = length y then map2 f x y
      else if length x = 1 then map (\<lambda>b. f (hd x) b) y
      else map (\<lambda>a. f a (hd y)) x)"

definition broadcast2 :: "(real \<Rightarrow> real \<Rightarrow> real) \<Rightarrow> vec \<Rightarrow> vec \<Rightarrow> error + vec" where
  "broadcast2 f x y =
     (if broadcastable (length x) (length y) then Inr (stretch2 f x y)
      else Inl (ValueError ''operands could not be broadcast together''))"

definition np_add :: "vec \<Rightarrow> vec \<Rightarrow> error + vec" where
  "np_add = broadcast2 (+)"

definition np_sub :: "vec \<Rightarrow> vec \<Rightarrow> error + vec" where
  "np_sub = broadcast2 (-)"


text \<open>\<open>M - g\<close> for a two-dimensional \<open>M\<close> and a one-dimensional \<open>g\<close>: \<open>g\<close> is subtracted
  from every row, under the same broadcasting rule.\<close>

definition sub_rows :: "mat \<Rightarrow> vec \<Rightarrow> error + mat" where
  "sub_rows M g =
     (if \<forall>r \<in> set M. broadcastable (length r) (length g)
      then Inr (map (\<lambda>r. stretch2 (-) r g) M)
      else Inl (ValueError ''operands could not be broadcast together''))"

text \<open>A NumPy float that need not be finite: \<open>np.inf\<close>, and the \<open>nan\<close> that the mean of an
  empty array is.\<close>

datatype npfloat = Finite real | PosInf | NaN

definition np_mean :: "real list \<Rightarrow> npfloat" where
  "np_mean xs = (if xs = [] then NaN else Finite (sum_list xs / real (length xs)))"

text \<open>\<open>np.linalg.norm\<close> of a one-dimensional array, and \<open>np.mean(M, axis=0)\<close>, the list of
  the column means.\<close>

definition norm2 :: "vec \<Rightarrow> real" where
  "norm2 v = sqrt (sum_list (map (\<lambda>x. x\<^sup>2) v))"

definition mean_axis0 :: "mat \<Rightarrow> vec" where
  "mean_axis0 M =
     (case M of
        [] \<Rightarrow> []
      | r # _ \<Rightarrow> map (\<lambda>j. sum_list (map (\<lambda>row. row ! j) M) / real (length M)) [0..<length r])"

definition zeros :: "nat \<Rightarrow> nat \<Rightarrow> mat" where
  "zeros r c = replicate r (replicate c 0)"

text \<open>\<open>np.kron(a, b)\<close> of two one-dimensional arrays, and \<open>np.ones(n)\<close>.\<close>

definition kron :: "vec \<Rightarrow> vec \<Rightarrow> vec" where
  "kron a b = concat (map (\<lambda>x. map (\<lambda>y. x * y) b) a)"

definition ones :: "nat \<Rightarrow> vec" where
  "ones n = replicate n 1"

text \<open>\<open>M[idx] = v\<close>: IndexError when there is no row \<open>idx\<close>; \<open>v\<close> must have the length of the
  row or length one.\<close>

definition set_row :: "mat \<Rightarrow> nat \<Rightarrow> vec \<Rightarrow> error + mat" where
  "set_row M idx v =
     (if length M \<le> idx then Inl IndexError
      else if length v = length (M ! idx) then Inr (M[idx := v])
      else if length v = 1 then Inr (M[idx := replicate (length (M ! idx)) (hd v)])
      else Inl (ValueError ''could not broadcast input array''))"

text \<open>\<open>M[r0:r1, c0:c1] = V\<close>. The slice is clipped to the array; \<open>V\<close> must have as many rows
  as the clipped slice or one row, and rows as long as the slice is wide or of length
  one, and is stretched to the slice.\<close>

definition stretch_to :: "nat \<Rightarrow> 'a list \<Rightarrow> 'a list" where
  "stretch_to n xs = (if length xs = n then xs else replicate n (hd xs))"

definition set_block :: "mat \<Rightarrow> nat \<Rightarrow> nat \<Rightarrow> nat \<Rightarrow> nat \<Rightarrow> mat \<Rightarrow> error + mat" where
  "set_block M r0 r1 c0 c1 V =
     (let a = min r0 (length M); b = min r1 (length M);
          c = (\<lambda>row. min c0 (length row)); d = (\<lambda>row. min c1 (length row))
      in if \<not> (length V = b - a \<or> length V = 1) then
           Inl (ValueError ''could not broadcast input array'')
         else if \<exists>row \<in> set M. \<exists>v \<in> set V. \<not> (length v = d row - c row \<or> length v = 1) then
           Inl (ValueError ''could not broadcast input array'')
         else
           Inr (map (\<lambda>i. if a \<le> i \<and> i < b
                           then take (c (M ! i)) (M ! i)
                                  @ stretch_to (d (M ! i) - c (M ! i)) (stretch_to (b - a) V ! (i - a))
                                  @ drop (d (M ! i)) (M ! i)
                           else M ! i) [0..<length M]))"

text \<open>\<open>X[:, -1]\<close> and \<open>X[a:b, -1]\<close> for the state trajectory a solve returned: TypeError when
  it is \<open>None\<close>, IndexError when the array has no column.\<close>

definition last_column :: "mat option \<Rightarrow> error + vec" where
  "last_column X =
     (case X of
        None \<Rightarrow> Inl TypeError
      | Some M \<Rightarrow> if [] \<in> set M then Inl IndexError else Inr (map last M))"

definition rows_last_column :: "mat option \<Rightarrow> nat \<Rightarrow> nat \<Rightarrow> error + vec" where
  "rows_last_column X a b =
     (case X of
        None \<Rightarrow> Inl TypeError
      | Some M \<Rightarrow>
          if [] \<in> set M then Inl IndexError else Inr (map last (take (b - a) (drop a M))))"

text \<open>A \<open>for\<close> loop over a mutable state: at the first exception the loop stops and the
  state stays as the body left it.\<close>

fun for_each :: "'a list \<Rightarrow> ('a \<Rightarrow> 's \<Rightarrow> error option \<times> 's) \<Rightarrow> 's \<Rightarrow> error option \<times> 's" where
  "for_each [] body s = (None, s)"
| "for_each (x # xs) body s =
     (case body x s of
        (Some e, s') \<Rightarrow> (Some e, s')
      | (None, s') \<Rightarrow> for_each xs body s')"

text \<open>\<open>d[k] = v\<close> on a dict kept as the list of its items in insertion order: the item
  with key \<open>k\<close> gets the value \<open>v\<close>, or a new item is added at the end.\<close>

fun dict_set :: "('k \<times> 'v) list \<Rightarrow> 'k \<Rightarrow> 'v \<Rightarrow> ('k \<times> 'v) list" where
  "dict_set [] k v = [(k, v)]"
| "dict_set ((k', v') # d) k v =
     (if k' = k then (k', v) # d else (k', v') # dict_set d k v)"


section \<open>Agents: \<open>LinearAgentNd\<close>\<close>

text \<open>The class \<open>LinearAgentNd\<close> of \<open>system.py\<close>: the fields \<open>A\<close>, \<open>B\<close>, \<open>state\<close> and
  \<open>agent_dim\<close>. The state is a one-dimensional array.\<close>

record LinearAgentNd =
  agent_A :: mat
  agent_B :: mat
  state :: vec
  agent_dim :: nat

text \<open>\<open>__init__\<close>: three assertions, in the order of the source. The third compares the
  second component of \<open>B.shape\<close>, the number of columns of \<open>B\<close>, with \<open>agent_dim\<close>.\<close>

definition LinearAgentNd_init :: "mat \<Rightarrow> mat \<Rightarrow> nat \<Rightarrow> vec \<Rightarrow> error + LinearAgentNd" where
  "LinearAgentNd_init A0 B0 adim init_state =
     (if length init_state \<noteq> adim then Inl AssertionError
      else if \<not> has_shape A0 adim adim then Inl AssertionError
      else if \<not> has_cols B0 adim then Inl AssertionError
      else Inr \<lparr>agent_A = A0, agent_B = B0, state = init_state, agent_dim = adim\<rparr>)"

text \<open>\<open>propagate_input\<close>: \<open>self.state = self.A @ self.state + self.B @ control_val\<close>.
  When one of the three array operations raises, the assignment does not happen.\<close>

definition propagate_input :: "vec \<Rightarrow> LinearAgentNd \<Rightarrow> error + LinearAgentNd" where
  "propagate_input control_val ag =
     (case matmul_vec (agent_A ag) (state ag) of
        Inl e \<Rightarrow> Inl e
      | Inr ax \<Rightarrow>
          (case matmul_vec (agent_B ag) control_val of
             Inl e \<Rightarrow> Inl e
           | Inr bu \<Rightarrow>
               (case np_add ax bu of
                  Inl e \<Rightarrow> Inl e
                | Inr s' \<Rightarrow> Inr (ag\<lparr>state := s'\<rparr>))))"

text \<open>\<open>set_state\<close>: asserts that the shapes agree, then overwrites the state.\<close>

definition set_state :: "vec \<Rightarrow> LinearAgentNd \<Rightarrow> error + LinearAgentNd" where
  "set_state input_state ag =
     (if length (state ag) \<noteq> length input_state then Inl AssertionError
      else Inr (ag\<lparr>state := input_state\<rparr>))"

text \<open>The data model's invariant of an agent of dimension \<open>D\<close> with \<open>C\<close> controls.\<close>

definition agent_ok :: "nat \<Rightarrow> nat \<Rightarrow> LinearAgentNd \<Rightarrow> bool" where
  "agent_ok D C ag =
     (has_shape (agent_A ag) D D \<and> has_shape (agent_B ag) D C \<and> length (state ag) = D)"


section \<open>The optimisation problems of \<open>mpc_solver.py\<close>\<close>

text \<open>
  Each of the three solve functions assembles a cvxpy objective and a list of cvxpy
  constraints over its decision variables and hands them to the solver. The objective
  and the constraints are kept as syntax trees, as cvxpy keeps them. A decision variable
  is a name; a vector expression is a column \<open>v[:, t]\<close> or a block of rows \<open>v[a:b, t]\<close> of
  a variable, a constant, a matrix applied to an expression, a sum or a difference.
  \<open>psd_wrap\<close> only marks a weight matrix as positive semidefinite and is left out. cvxpy
  checks the shapes of the operands while the trees are built; that check is not part
  of the embedding.
\<close>

datatype var = Var_x | Var_u | Var_x_mes | Var_x_mic | Var_u_mes | Var_u_mic

datatype vexpr =
    Column var nat
  | Block var nat nat nat
  | Constant vec
  | MatMul mat vexpr
  | Add vexpr vexpr
  | Sub vexpr vexpr

datatype sexpr =
    Num real
  | QuadForm vexpr mat
  | Scale real sexpr
  | SAdd sexpr sexpr

text \<open>A control bound (\<open>umax\<close>, \<open>umin\<close>) is a number or an array.\<close>

datatype operand = Scalar real | Array mat

datatype constr =
    Eq vexpr vexpr
  | Ge vexpr vexpr
  | Le vexpr vexpr
  | Norm2Ge vexpr real
  | VarLe var operand
  | VarGe var operand

type_synonym problem = "sexpr \<times> constr list"

text \<open>\<open>for t in range(...)\<close> over a loop state, stopping at the first exception.\<close>

fun for_range :: "nat list \<Rightarrow> (nat \<Rightarrow> 'st \<Rightarrow> error + 'st) \<Rightarrow> 'st \<Rightarrow> error + 'st" where
  "for_range [] body st = Inr st"
| "for_range (t # ts) body st =
     (case body t st of Inl e \<Rightarrow> Inl e | Inr st' \<Rightarrow> for_range ts body st')"

text \<open>\<open>m[:, 0]\<close>: IndexError when the array has rows without entries.\<close>

definition column0 :: "mat \<Rightarrow> error + vec" where
  "column0 m = (if [] \<in> set m then Inl IndexError else Inr (map hd m))"

text \<open>\<open>a // b\<close> on non-negative integers.\<close>

definition floordiv :: "nat \<Rightarrow> nat \<Rightarrow> error + nat" where
  "floordiv a b = (if b = 0 then Inl ZeroDivisionError else Inr (a div b))"

text \<open>\<open>if xmin is not None: constrlist += [e >= xmin[:, 0]]\<close>, and the same for \<open>xmax\<close>.\<close>

definition bound_ge :: "mat option \<Rightarrow> vexpr \<Rightarrow> constr list \<Rightarrow> error + constr list" where
  "bound_ge xmin e constrlist =
     (case xmin of
        None \<Rightarrow> Inr constrlist
      | Some m \<Rightarrow>
          (case column0 m of
             Inl er \<Rightarrow> Inl er
           | Inr c \<Rightarrow> Inr (constrlist @ [Ge e (Constant c)])))"

definition bound_le :: "mat option \<Rightarrow> vexpr \<Rightarrow> constr list \<Rightarrow> error + constr list" where
  "bound_le xmax e constrlist =
     (case xmax of
        None \<Rightarrow> Inr constrlist
      | Some m \<Rightarrow>
          (case column0 m of
             Inl er \<Rightarrow> Inl er
           | Inr c \<Rightarrow> Inr (constrlist @ [Le e (Constant c)])))"

text \<open>\<open>if umax is not None: constrlist += [u <= umax]\<close>, then the same with \<open>umin\<close>.\<close>

definition input_bounds :: "var \<Rightarrow> operand option \<Rightarrow> operand option \<Rightarrow> constr list \<Rightarrow> constr list" where
  "input_bounds u umax umin constrlist =
     (let k1 = (case umax of None \<Rightarrow> constrlist | Some b \<Rightarrow> constrlist @ [VarLe u b])
      in (case umin of None \<Rightarrow> k1 | Some b \<Rightarrow> k1 @ [VarGe u b]))"

text \<open>The separation constraint between the blocks \<open>idx\<close> and \<open>jdx\<close> of \<open>adim\<close> rows at
  stage \<open>t\<close>:
  \<open>norm2(x[idx * adim : (idx+1) * adim, t] - x[jdx * adim : (jdx+1) * adim, t]) >= coll_d\<close>.\<close>

definition separation :: "var \<Rightarrow> nat \<Rightarrow> real \<Rightarrow> nat \<Rightarrow> nat \<Rightarrow> nat \<Rightarrow> constr" where
  "separation x adim coll_d t idx jdx =
     Norm2Ge (Sub (Block x (idx * adim) ((idx + 1) * adim) t)
                  (Block x (jdx * adim) ((jdx + 1) * adim) t)) coll_d"

text \<open>The two nested loops \<open>for idx in range(n): for jdx in range(idx+1, m): constrlist += [...]\<close>.
  \<open>conventional_solve\<close> runs them with \<open>m = nx//adim\<close>, the two coupling solves with
  \<open>m = nx//adim - 1\<close>; when \<open>m \<le> idx + 1\<close> the inner range is empty.\<close>

definition separation_loops :: "var \<Rightarrow> nat \<Rightarrow> real \<Rightarrow> nat \<Rightarrow> nat \<Rightarrow> nat \<Rightarrow> constr list" where
  "separation_loops x adim coll_d t n m =
     concat (map (\<lambda>idx. map (\<lambda>jdx. separation x adim coll_d t idx jdx) [idx + 1..<m]) [0..<n])"

text \<open>The state cost of one stage: with a reference \<open>x_star_in\<close> the quadratic form of
  \<open>x[:, t] - x_star\<close>, without one the quadratic form of \<open>x[:, t]\<close>.\<close>

definition stage_state_cost :: "var \<Rightarrow> mat \<Rightarrow> vec option \<Rightarrow> nat \<Rightarrow> sexpr" where
  "stage_state_cost x Q x_star_in t =
     (case x_star_in of
        Some x_star \<Rightarrow> Scale (1/2) (QuadForm (Sub (Column x t) (Constant x_star)) Q)
      | None \<Rightarrow> Scale (1/2) (QuadForm (Column x t) Q))"

definition dynamics :: "var \<Rightarrow> var \<Rightarrow> mat \<Rightarrow> mat \<Rightarrow> nat \<Rightarrow> constr" where
  "dynamics x u A0 B0 t =
     Eq (Column x (t + 1)) (Add (MatMul A0 (Column x t)) (MatMul B0 (Column u t)))"

subsection \<open>\<open>conventional_solve\<close>\<close>

text \<open>The body of \<open>for t in range(N)\<close>; \<open>nx\<close> is the number of rows of \<open>B\<close>.\<close>

definition conventional_stage ::
  "mat \<Rightarrow> mat \<Rightarrow> mat \<Rightarrow> mat \<Rightarrow> nat \<Rightarrow> nat \<Rightarrow> mat option \<Rightarrow> mat option \<Rightarrow> vec option \<Rightarrow> real option
     \<Rightarrow> nat \<Rightarrow> problem \<Rightarrow> error + problem" where
  "conventional_stage A0 B0 Q R nx adim xmin xmax x_star_in coll_d t st =
     (case st of (costlist, constrlist) \<Rightarrow>
        (let c1 = SAdd costlist (stage_state_cost Var_x Q x_star_in t);
             c2 = SAdd c1 (Scale (1/2) (QuadForm (Column Var_u t) R));
             k1 = constrlist @ [dynamics Var_x Var_u A0 B0 t]
         in case bound_ge xmin (Column Var_x t) k1 of
              Inl e \<Rightarrow> Inl e
            | Inr k2 \<Rightarrow>
                (case bound_le xmax (Column Var_x t) k2 of
                   Inl e \<Rightarrow> Inl e
                 | Inr k3 \<Rightarrow>
                     (case coll_d of
                        None \<Rightarrow> Inr (c2, k3)
                      | Some d \<Rightarrow>
                          (case floordiv nx adim of
                             Inl e \<Rightarrow> Inl e
                           | Inr nb \<Rightarrow> Inr (c2, k3 @ separation_loops Var_x adim d t nb nb))))))"

text \<open>What follows the loop: terminal cost, terminal state bounds, input bounds and the
  initial condition. The three solve functions share it, each with its own variables.\<close>

definition terminal_part ::
  "var \<Rightarrow> var \<Rightarrow> nat \<Rightarrow> mat \<Rightarrow> vec \<Rightarrow> operand option \<Rightarrow> operand option \<Rightarrow> mat option \<Rightarrow> mat option
     \<Rightarrow> problem \<Rightarrow> error + problem" where
  "terminal_part x u N P x0 umax umin xmin xmax st =
     (case st of (costlist, constrlist) \<Rightarrow>
        (let c = SAdd costlist (Scale (1/2) (QuadForm (Column x N) P))
         in case bound_ge xmin (Column x N) constrlist of
              Inl e \<Rightarrow> Inl e
            | Inr k1 \<Rightarrow>
                (case bound_le xmax (Column x N) k1 of
                   Inl e \<Rightarrow> Inl e
                 | Inr k2 \<Rightarrow>
                     Inr (c, input_bounds u umax umin k2 @ [Eq (Column x 0) (Constant x0)]))))"

definition conventional_problem ::
  "mat \<Rightarrow> mat \<Rightarrow> nat \<Rightarrow> mat \<Rightarrow> mat \<Rightarrow> mat \<Rightarrow> vec \<Rightarrow> nat
     \<Rightarrow> operand option \<Rightarrow> operand option \<Rightarrow> mat option \<Rightarrow> mat option \<Rightarrow> vec option \<Rightarrow> real option
     \<Rightarrow> error + problem" where
  "conventional_problem A0 B0 N Q R P x0 adim umax umin xmin xmax x_star_in coll_d =
     (case for_range [0..<N]
             (conventional_stage A0 B0 Q R (length B0) adim xmin xmax x_star_in coll_d)
             (Num 0, []) of
        Inl e \<Rightarrow> Inl e
      | Inr st \<Rightarrow> terminal_part Var_x Var_u N P x0 umax umin xmin xmax st)"

subsection \<open>\<open>microcoupling_solve\<close>\<close>

definition microcoupling_stage ::
  "mat \<Rightarrow> mat \<Rightarrow> mat \<Rightarrow> mat \<Rightarrow> nat \<Rightarrow> nat \<Rightarrow> mat option \<Rightarrow> mat option \<Rightarrow> vec option \<Rightarrow> real option
     \<Rightarrow> nat \<Rightarrow> problem \<Rightarrow> error + problem" where
  "microcoupling_stage A0 B0 Q R nx adim xmin xmax x_star_in coll_d t st =
     (case st of (costlist, constrlist) \<Rightarrow>
        (let c1 = SAdd costlist (stage_state_cost Var_x Q x_star_in t);
             c2 = SAdd c1 (Scale (1/2) (QuadForm (Column Var_u t) R));
             k1 = constrlist @ [dynamics Var_x Var_u A0 B0 t]
         in case bound_ge xmin (Column Var_x t) k1 of
              Inl e \<Rightarrow> Inl e
            | Inr k2 \<Rightarrow>
                (case bound_le xmax (Column Var_x t) k2 of
                   Inl e \<Rightarrow> Inl e
                 | Inr k3 \<Rightarrow>
                     (case coll_d of
                        None \<Rightarrow> Inr (c2, k3)
                      | Some d \<Rightarrow>
                          (case floordiv nx adim of
                             Inl e \<Rightarrow> Inl e
                           | Inr nb \<Rightarrow>
                               Inr (c2, k3 @ separation_loops Var_x adim d t nb (nb - 1)))))))"

text \<open>\<open>for t in range(N_cpl): costlist += 0.5 * L_lambda * cvxpy.quad_form(x[:, t], L)\<close>.\<close>

definition coupling_stage :: "mat \<Rightarrow> real \<Rightarrow> nat \<Rightarrow> problem \<Rightarrow> error + problem" where
  "coupling_stage L L_lambda t st =
     (case st of (costlist, constrlist) \<Rightarrow>
        Inr (SAdd costlist (Scale (1/2 * L_lambda) (QuadForm (Column Var_x t) L)), constrlist))"

definition microcoupling_problem ::
  "mat \<Rightarrow> mat \<Rightarrow> nat \<Rightarrow> mat \<Rightarrow> mat \<Rightarrow> mat \<Rightarrow> vec \<Rightarrow> nat \<Rightarrow> nat \<Rightarrow> mat option \<Rightarrow> real
     \<Rightarrow> operand option \<Rightarrow> operand option \<Rightarrow> mat option \<Rightarrow> mat option \<Rightarrow> vec option \<Rightarrow> real option
     \<Rightarrow> error + problem" where
  "microcoupling_problem A0 B0 N_mic Q R P x0 adim N_cpl L L_lambda
       umax umin xmin xmax x_star_in coll_d =
     (case for_range [0..<N_mic]
             (microcoupling_stage A0 B0 Q R (length B0) adim xmin xmax x_star_in coll_d)
             (Num 0, []) of
        Inl e \<Rightarrow> Inl e
      | Inr st \<Rightarrow>
          (case terminal_part Var_x Var_u N_mic P x0 umax umin xmin xmax st of
             Inl e \<Rightarrow> Inl e
           | Inr st' \<Rightarrow>
               (case L of
                  None \<Rightarrow> Inr st'
                | Some L0 \<Rightarrow> for_range [0..<N_cpl] (coupling_stage L0 L_lambda) st')))"

subsection \<open>\<open>mesocoupling_solve\<close>\<close>

text \<open>The body of the slow-time loop \<open>for t in range(N_mes)\<close>.\<close>

definition meso_stage ::
  "mat \<Rightarrow> mat \<Rightarrow> mat \<Rightarrow> mat \<Rightarrow> mat option \<Rightarrow> mat option \<Rightarrow> vec option
     \<Rightarrow> nat \<Rightarrow> problem \<Rightarrow> error + problem" where
  "meso_stage A_mes B_mes Q R_mes xmin_mes xmax_mes x_star_in t st =
     (case st of (costlist, constrlist) \<Rightarrow>
        (let c1 = SAdd costlist (stage_state_cost Var_x_mes Q x_star_in t);
             c2 = SAdd c1 (Scale (1/2) (QuadForm (Column Var_u_mes t) R_mes));
             k1 = constrlist @ [dynamics Var_x_mes Var_u_mes A_mes B_mes t]
         in case bound_ge xmin_mes (Column Var_x_mes t) k1 of
              Inl e \<Rightarrow> Inl e
            | Inr k2 \<Rightarrow>
                (case bound_le xmax_mes (Column Var_x_mes t) k2 of
                   Inl e \<Rightarrow> Inl e
                 | Inr k3 \<Rightarrow> Inr (c2, k3))))"

text \<open>The body of the fast-time loop \<open>for t in range(N_mic)\<close>, entered only under
  \<open>if L is not None\<close>; \<open>nx_mic\<close> is the number of rows of \<open>B_mic\<close>.\<close>

definition micro_stage ::
  "mat \<Rightarrow> mat \<Rightarrow> mat \<Rightarrow> real \<Rightarrow> mat \<Rightarrow> nat \<Rightarrow> nat \<Rightarrow> mat option \<Rightarrow> mat option \<Rightarrow> real option
     \<Rightarrow> nat \<Rightarrow> problem \<Rightarrow> error + problem" where
  "micro_stage A_mic B_mic L L_lambda R_mic nx_mic adim xmin_mic xmax_mic coll_d t st =
     (case st of (costlist, constrlist) \<Rightarrow>
        (let c1 = SAdd costlist (Scale (1/2 * L_lambda) (QuadForm (Column Var_x_mic t) L));
             c2 = SAdd c1 (Scale (1/2) (QuadForm (Column Var_u_mic t) R_mic));
             k1 = constrlist @ [dynamics Var_x_mic Var_u_mic A_mic B_mic t]
         in case bound_ge xmin_mic (Column Var_x_mic t) k1 of
              Inl e \<Rightarrow> Inl e
            | Inr k2 \<Rightarrow>
                (case bound_le xmax_mic (Column Var_x_mic t) k2 of
                   Inl e \<Rightarrow> Inl e
                 | Inr k3 \<Rightarrow>
                     (case coll_d of
                        None \<Rightarrow> Inr (c2, k3)
                      | Some d \<Rightarrow>
                          (case floordiv nx_mic adim of
                             Inl e \<Rightarrow> Inl e
                           | Inr nb \<Rightarrow>
                               Inr (c2, k3 @ separation_loops Var_x_mic adim d t nb (nb - 1)))))))"

definition mesocoupling_problem ::
  "mat \<Rightarrow> mat \<Rightarrow> nat \<Rightarrow> mat \<Rightarrow> mat \<Rightarrow> mat \<Rightarrow> vec \<Rightarrow> nat
     \<Rightarrow> mat \<Rightarrow> mat \<Rightarrow> nat \<Rightarrow> mat \<Rightarrow> vec \<Rightarrow> mat option \<Rightarrow> real
     \<Rightarrow> operand option \<Rightarrow> operand option \<Rightarrow> operand option \<Rightarrow> operand option
     \<Rightarrow> mat option \<Rightarrow> mat option \<Rightarrow> mat option \<Rightarrow> mat option \<Rightarrow> vec option \<Rightarrow> real option
     \<Rightarrow> error + problem" where
  "mesocoupling_problem A_mes B_mes N_mes Q R_mes P x0_mes adim
       A_mic B_mic N_mic R_mic x0_mic L L_lambda
       umax_mes umin_mes umax_mic umin_mic xmin_mes xmax_mes xmin_mic xmax_mic x_star_in coll_d =
     (case for_range [0..<N_mes]
             (meso_stage A_mes B_mes Q R_mes xmin_mes xmax_mes x_star_in) (Num 0, []) of
        Inl e \<Rightarrow> Inl e
      | Inr st \<Rightarrow>
          (case terminal_part Var_x_mes Var_u_mes N_mes P x0_mes umax_mes umin_mes
                  xmin_mes xmax_mes st of
             Inl e \<Rightarrow> Inl e
           | Inr st' \<Rightarrow>
               (case L of
                  None \<Rightarrow> Inr st'
                | Some L0 \<Rightarrow>
                    (case for_range [0..<N_mic]
                            (micro_stage A_mic B_mic L0 L_lambda R_mic (length B_mic) adim
                               xmin_mic xmax_mic coll_d) st' of
                       Inl e \<Rightarrow> Inl e
                     | Inr (costlist, constrlist) \<Rightarrow>
                         Inr (costlist,
                              input_bounds Var_u_mic umax_mic umin_mic constrlist
                                @ [Eq (Column Var_x_mic 0) (Constant x0_mic)])))))"

subsection \<open>Solving\<close>

text \<open>
  \<open>prob.solve\<close> is the external solver: a parameter that, for an objective and a
  constraint list, either raises or gives each variable a value, or no value when it
  found no solution, together with the optimal value \<open>prob.value\<close>. cvxpy writes a value
  into those variables only that occur in the problem; the \<open>value\<close> of any other
  variable stays \<open>None\<close>.
\<close>

type_synonym solver = "sexpr \<Rightarrow> constr list \<Rightarrow> error + (var \<Rightarrow> mat option) \<times> real"

fun vars_v :: "vexpr \<Rightarrow> var set" where
  "vars_v (Column v t) = {v}"
| "vars_v (Block v a b t) = {v}"
| "vars_v (Constant c) = {}"
| "vars_v (MatMul M e) = vars_v e"
| "vars_v (Add e f) = vars_v e \<union> vars_v f"
| "vars_v (Sub e f) = vars_v e \<union> vars_v f"

fun vars_s :: "sexpr \<Rightarrow> var set" where
  "vars_s (Num c) = {}"
| "vars_s (QuadForm e W) = vars_v e"
| "vars_s (Scale k e) = vars_s e"
| "vars_s (SAdd e f) = vars_s e \<union> vars_s f"

fun vars_c :: "constr \<Rightarrow> var set" where
  "vars_c (Eq e f) = vars_v e \<union> vars_v f"
| "vars_c (Ge e f) = vars_v e \<union> vars_v f"
| "vars_c (Le e f) = vars_v e \<union> vars_v f"
| "vars_c (Norm2Ge e d) = vars_v e"
| "vars_c (VarLe v b) = {v}"
| "vars_c (VarGe v b) = {v}"

definition variables :: "problem \<Rightarrow> var set" where
  "variables pr = vars_s (fst pr) \<union> (\<Union>c \<in> set (snd pr). vars_c c)"

definition value_of :: "problem \<Rightarrow> (var \<Rightarrow> mat option) \<Rightarrow> var \<Rightarrow> mat option" where
  "value_of pr sol v = (if v \<in> variables pr then sol v else None)"

definition conventional_solve ::
  "solver \<Rightarrow> mat \<Rightarrow> mat \<Rightarrow> nat \<Rightarrow> mat \<Rightarrow> mat \<Rightarrow> mat \<Rightarrow> vec \<Rightarrow> nat
     \<Rightarrow> operand option \<Rightarrow> operand option \<Rightarrow> mat option \<Rightarrow> mat option \<Rightarrow> vec option \<Rightarrow> real option
     \<Rightarrow> error + mat option \<times> mat option \<times> real" where
  "conventional_solve solve A0 B0 N Q R P x0 adim umax umin xmin xmax x_star_in coll_d =
     (case conventional_problem A0 B0 N Q R P x0 adim umax umin xmin xmax x_star_in coll_d of
        Inl e \<Rightarrow> Inl e
      | Inr pr \<Rightarrow>
          (case solve (fst pr) (snd pr) of
             Inl e \<Rightarrow> Inl e
           | Inr (sol, cost_val) \<Rightarrow>
               Inr (value_of pr sol Var_x, value_of pr sol Var_u, cost_val)))"

definition microcoupling_solve ::
  "solver \<Rightarrow> mat \<Rightarrow> mat \<Rightarrow> nat \<Rightarrow> mat \<Rightarrow> mat \<Rightarrow> mat \<Rightarrow> vec \<Rightarrow> nat \<Rightarrow> nat \<Rightarrow> mat option \<Rightarrow> real
     \<Rightarrow> operand option \<Rightarrow> operand option \<Rightarrow> mat option \<Rightarrow> mat option \<Rightarrow> vec option \<Rightarrow> real option
     \<Rightarrow> error + mat option \<times> mat option \<times> real" where
  "microcoupling_solve solve A0 B0 N_mic Q R P x0 adim N_cpl L L_lambda
       umax umin xmin xmax x_star_in coll_d =
     (case microcoupling_problem A0 B0 N_mic Q R P x0 adim N_cpl L L_lambda
             umax umin xmin xmax x_star_in coll_d of
        Inl e \<Rightarrow> Inl e
      | Inr pr \<Rightarrow>
          (case solve (fst pr) (snd pr) of
             Inl e \<Rightarrow> Inl e
           | Inr (sol, cost_val) \<Rightarrow>
               Inr (value_of pr sol Var_x, value_of pr sol Var_u, cost_val)))"

definition mesocoupling_solve ::
  "solver \<Rightarrow> mat \<Rightarrow> mat \<Rightarrow> nat \<Rightarrow> mat \<Rightarrow> mat \<Rightarrow> mat \<Rightarrow> vec \<Rightarrow> nat
     \<Rightarrow> mat \<Rightarrow> mat \<Rightarrow> nat \<Rightarrow> mat \<Rightarrow> vec \<Rightarrow> mat option \<Rightarrow> real
     \<Rightarrow> operand option \<Rightarrow> operand option \<Rightarrow> operand option \<Rightarrow> operand option
     \<Rightarrow> mat option \<Rightarrow> mat option \<Rightarrow> mat option \<Rightarrow> mat option \<Rightarrow> vec option \<Rightarrow> real option
     \<Rightarrow> error + mat option \<times> mat option \<times> mat option \<times> mat option \<times> real" where
  "mesocoupling_solve solve A_mes B_mes N_mes Q R_mes P x0_mes adim
       A_mic B_mic N_mic R_mic x0_mic L L_lambda
       umax_mes umin_mes umax_mic umin_mic xmin_mes xmax_mes xmin_mic xmax_mic x_star_in coll_d =
     (case mesocoupling_problem A_mes B_mes N_mes Q R_mes P x0_mes adim
             A_mic B_mic N_mic R_mic x0_mic L L_lambda
             umax_mes umin_mes umax_mic umin_mic xmin_mes xmax_mes xmin_mic xmax_mic
             x_star_in coll_d of
        Inl e \<Rightarrow> Inl e
      | Inr pr \<Rightarrow>
          (case solve (fst pr) (snd pr) of
             Inl e \<Rightarrow> Inl e
           | Inr (sol, cost_val) \<Rightarrow>
               Inr (value_of pr sol Var_x_mes, value_of pr sol Var_x_mic,
                    value_of pr sol Var_u_mes, value_of pr sol Var_u_mic, cost_val)))"

subsection \<open>The value of an objective\<close>

text \<open>What an objective evaluates to once every variable has a value: \<open>col M t\<close> is
  \<open>M[:, t]\<close>, and \<open>quad_form v W\<close> is \<open>v\<^sup>T W v\<close>.\<close>

definition col :: "mat \<Rightarrow> nat \<Rightarrow> vec" where
  "col M t = map (\<lambda>r. r ! t) M"

definition quad_form :: "vec \<Rightarrow> mat \<Rightarrow> real" where
  "quad_form v W = dot v (map (\<lambda>r. dot r v) W)"

fun eval_v :: "(var \<Rightarrow> mat) \<Rightarrow> vexpr \<Rightarrow> vec" where
  "eval_v \<rho> (Column v t) = col (\<rho> v) t"
| "eval_v \<rho> (Block v a b t) = take (b - a) (drop a (col (\<rho> v) t))"
| "eval_v \<rho> (Constant c) = c"
| "eval_v \<rho> (MatMul M e) = map (\<lambda>r. dot r (eval_v \<rho> e)) M"
| "eval_v \<rho> (Add e f) = map2 (+) (eval_v \<rho> e) (eval_v \<rho> f)"
| "eval_v \<rho> (Sub e f) = map2 (-) (eval_v \<rho> e) (eval_v \<rho> f)"

fun eval_s :: "(var \<Rightarrow> mat) \<Rightarrow> sexpr \<Rightarrow> real" where
  "eval_s \<rho> (Num c) = c"
| "eval_s \<rho> (QuadForm e W) = quad_form (eval_v \<rho> e) W"
| "eval_s \<rho> (Scale k e) = k * eval_s \<rho> e"
| "eval_s \<rho> (SAdd e f) = eval_s \<rho> e + eval_s \<rho> f"


subsection \<open>Reading a problem\<close>

text \<open>The separation constraints of a constraint list, and the variables its constraints
  mention.\<close>

fun is_separation :: "constr \<Rightarrow> bool" where
  "is_separation (Norm2Ge e d) = True"
| "is_separation c = False"

definition constr_vars :: "constr list \<Rightarrow> var set" where
  "constr_vars k = (\<Union>c \<in> set k. vars_c c)"

section \<open>Clusters: \<open>LinearClusterNd\<close>\<close>

text \<open>
  The system keeps its agents in a dict from agent index to agent object: the list of
  its items in insertion order. A cluster holds some of the same agent objects in a
  dict of its own, under the same indices; the cluster is modelled with the list of
  these indices, and reaches the objects through the system's dict, which is passed to
  every cluster operation. The system never adds or removes a key, so the lookup of a
  cluster's index fails only where the dict comprehension that builds the cluster's
  dict fails, with KeyError.
\<close>

type_synonym agent_dict = "(nat \<times> LinearAgentNd) list"

record LinearClusterNd =
  cluster_agents :: "nat list"
  cluster_n_agents :: nat
  full_cluster_state :: mat
  centroid :: vec

text \<open>\<open>update_centroid\<close>: copies the state of the \<open>idx\<close>-th member into row \<open>idx\<close> of
  \<open>full_cluster_state\<close>, for \<open>idx\<close> in \<open>range(n_agents)\<close>, then takes the column means.\<close>

definition copy_member_state :: "agent_dict \<Rightarrow> nat \<Rightarrow> LinearClusterNd \<Rightarrow> error option \<times> LinearClusterNd" where
  "copy_member_state store idx cl =
     (if length (cluster_agents cl) \<le> idx then (Some IndexError, cl)
      else
        (case map_of store (cluster_agents cl ! idx) of
           None \<Rightarrow> (Some KeyError, cl)
         | Some agent \<Rightarrow>
             (case set_row (full_cluster_state cl) idx (state agent) of
                Inl e \<Rightarrow> (Some e, cl)
              | Inr M \<Rightarrow> (None, cl\<lparr>full_cluster_state := M\<rparr>))))"

definition update_centroid :: "agent_dict \<Rightarrow> LinearClusterNd \<Rightarrow> error option \<times> LinearClusterNd" where
  "update_centroid store cl =
     (case for_each [0..<cluster_n_agents cl] (copy_member_state store) cl of
        (Some e, cl') \<Rightarrow> (Some e, cl')
      | (None, cl') \<Rightarrow> (None, cl'\<lparr>centroid := mean_axis0 (full_cluster_state cl')\<rparr>))"

text \<open>\<open>__init__\<close>: asserts that \<open>n_agents\<close> is the size of the dict, allocates
  \<open>full_cluster_state\<close> and computes the centroid.\<close>

definition LinearClusterNd_init ::
  "agent_dict \<Rightarrow> nat list \<Rightarrow> nat \<Rightarrow> nat \<Rightarrow> error + LinearClusterNd" where
  "LinearClusterNd_init store keys n adim =
     (if n \<noteq> length keys then Inl AssertionError
      else
        (case update_centroid store
                \<lparr>cluster_agents = keys, cluster_n_agents = n,
                 full_cluster_state = zeros n adim, centroid = []\<rparr> of
           (Some e, cl) \<Rightarrow> Inl e
         | (None, cl) \<Rightarrow> Inr cl))"

text \<open>\<open>propagate_input\<close> of a cluster: every member agent receives the control, one after
  the other, then the centroid is updated. The agents are the system's, so the dict of
  the system changes with them.\<close>

definition propagate_to_member :: "vec \<Rightarrow> nat \<Rightarrow> agent_dict \<Rightarrow> error option \<times> agent_dict" where
  "propagate_to_member control_val k store =
     (case map_of store k of
        None \<Rightarrow> (Some KeyError, store)
      | Some agent \<Rightarrow>
          (case propagate_input control_val agent of
             Inl e \<Rightarrow> (Some e, store)
           | Inr agent' \<Rightarrow> (None, dict_set store k agent')))"

definition cluster_propagate_input ::
  "vec \<Rightarrow> agent_dict \<times> LinearClusterNd \<Rightarrow> error option \<times> agent_dict \<times> LinearClusterNd" where
  "cluster_propagate_input control_val sc =
     (case sc of (store, cl) \<Rightarrow>
        (case for_each (cluster_agents cl) (propagate_to_member control_val) store of
           (Some e, store') \<Rightarrow> (Some e, store', cl)
         | (None, store') \<Rightarrow>
             (case update_centroid store' cl of (r, cl') \<Rightarrow> (r, store', cl'))))"


section \<open>The orchestrator: \<open>MultiAgentSystem\<close>\<close>

text \<open>
  The fields of \<open>MultiAgentSystem\<close>; \<open>sys_agent_dim\<close> is its field \<open>agent_dim\<close>. The four
  fields that \<open>_re_eval_clusters\<close> assigns do not exist before its first run; the
  constructor, which ends with that run, starts them empty.
\<close>

record MultiAgentSystem =
  n_agents :: nat
  sys_agent_dim :: nat
  control_dim :: nat
  full_system_state :: mat
  system_goal :: vec
  agents :: agent_dict
  clust_algo :: string
  clust_algo_params :: "real list"
  avg_goal_dist :: npfloat
  control_solution_time :: real
  clust_labels :: "int list"
  n_clusters :: int
  clusters :: "(nat \<times> LinearClusterNd) list"
  cluster_centroids :: "(nat \<times> vec) list"

text \<open>
  What the orchestrator calls outside this code: \<open>scipy\<close>'s \<open>fclusterdata\<close> (with
  \<open>criterion='distance'\<close>), the labels of a fitted \<open>HDBSCAN\<close> clusterer (\<open>alpha\<close>,
  \<open>leaf_size\<close>, \<open>min_cluster_size\<close>, with \<open>min_samples=1\<close>), and
  \<open>mpc_solver.use_modeling_tool\<close>, which \<open>system.py\<close> imports from a module that is not
  among the sources: its arguments are \<open>A, B, n_t, Q, R, P, x0, x_star_in, umax, umin\<close>
  and it returns a state trajectory, a control trajectory and a cost, or raises.
\<close>

record externals =
  fclusterdata :: "mat \<Rightarrow> real \<Rightarrow> error + int list"
  hdbscan_labels :: "real \<Rightarrow> real \<Rightarrow> real \<Rightarrow> mat \<Rightarrow> error + int list"
  use_modeling_tool ::
    "mat \<Rightarrow> mat \<Rightarrow> nat \<Rightarrow> mat \<Rightarrow> mat \<Rightarrow> mat \<Rightarrow> vec \<Rightarrow> vec option \<Rightarrow> operand option \<Rightarrow> operand option
       \<Rightarrow> error + mat option \<times> mat option \<times> real"

subsection \<open>\<open>_re_eval_clusters\<close>\<close>

text \<open>The dispatch on the algorithm name, up to the assignment of \<open>clust_labels\<close>.\<close>

definition cluster_labels :: "externals \<Rightarrow> MultiAgentSystem \<Rightarrow> error + int list" where
  "cluster_labels ext s =
     (if clust_algo s = ''hierarchy'' then
        (case clust_algo_params s of
           [] \<Rightarrow> Inl IndexError
         | thresh # _ \<Rightarrow>
             (case fclusterdata ext (full_system_state s) thresh of
                Inl e \<Rightarrow> Inl e
              | Inr ls \<Rightarrow> Inr (map (\<lambda>l. l - 1) ls)))
      else if clust_algo s = ''hdbscan'' then
        (case clust_algo_params s of
           [alpha, leaf_size, min_cluster_size] \<Rightarrow>
             hdbscan_labels ext alpha leaf_size min_cluster_size (full_system_state s)
         | _ \<Rightarrow> Inl (ValueError ''wrong number of values to unpack''))
      else Inl (ValueError ''Cluster identification algorithm not implemented''))"

text \<open>The body of \<open>for cdx in range(self.n_clusters)\<close>.\<close>

definition build_cluster :: "nat \<Rightarrow> MultiAgentSystem \<Rightarrow> error option \<times> MultiAgentSystem" where
  "build_cluster cdx s =
     (let agent_indices =
            filter (\<lambda>i. clust_labels s ! i = int cdx) [0..<length (clust_labels s)];
          n_agents_clust = length agent_indices
      in if \<exists>loc_idx \<in> set agent_indices. map_of (agents s) loc_idx = None then
           (Some KeyError, s)
         else
           (case LinearClusterNd_init (agents s) agent_indices n_agents_clust
                   (sys_agent_dim s) of
              Inl e \<Rightarrow> (Some e, s)
            | Inr cluster \<Rightarrow>
                (None, s\<lparr>clusters := dict_set (clusters s) cdx cluster,
                          cluster_centroids :=
                            dict_set (cluster_centroids s) cdx (centroid cluster)\<rparr>)))"

text \<open>\<open>max\<close> of a list that is not empty.\<close>

definition list_max :: "int list \<Rightarrow> int" where
  "list_max xs = fold max (tl xs) (hd xs)"

definition re_eval_clusters :: "externals \<Rightarrow> MultiAgentSystem \<Rightarrow> error option \<times> MultiAgentSystem" where
  "re_eval_clusters ext s =
     (case cluster_labels ext s of
        Inl e \<Rightarrow> (Some e, s)
      | Inr labels \<Rightarrow>
          (let s1 = s\<lparr>clust_labels := labels\<rparr>
           in if labels = [] then (Some (ValueError ''max() arg is an empty sequence''), s1)
              else
                for_each [0..<nat (list_max labels + 1)] build_cluster
                  (s1\<lparr>n_clusters := list_max labels + 1, clusters := [],
                      cluster_centroids := []\<rparr>)))"

subsection \<open>\<open>_re_eval_system\<close>\<close>

text \<open>\<open>for idx, agent in self.agents.items(): self.full_system_state[idx] = agent.state\<close>.\<close>

fun gather_states :: "agent_dict \<Rightarrow> mat \<Rightarrow> error option \<times> mat" where
  "gather_states [] M = (None, M)"
| "gather_states ((idx, agent) # rest) M =
     (case set_row M idx (state agent) of
        Inl e \<Rightarrow> (Some e, M)
      | Inr M' \<Rightarrow> gather_states rest M')"

definition re_eval_system :: "externals \<Rightarrow> MultiAgentSystem \<Rightarrow> error option \<times> MultiAgentSystem" where
  "re_eval_system ext s =
     (case gather_states (agents s) (full_system_state s) of
        (Some e, M) \<Rightarrow> (Some e, s\<lparr>full_system_state := M\<rparr>)
      | (None, M) \<Rightarrow>
          (case sub_rows M (system_goal s) of
             Inl e \<Rightarrow> (Some e, s\<lparr>full_system_state := M\<rparr>)
           | Inr deltas \<Rightarrow>
               re_eval_clusters ext
                 (s\<lparr>full_system_state := M, avg_goal_dist := np_mean (map norm2 deltas)\<rparr>)))"

subsection \<open>\<open>__init__\<close>\<close>

text \<open>The state generator is the caller's: it is given the agent dimension, the number
  of agents and its own arguments, and returns the dict of agents or raises. When the
  constructor raises, no system object reaches the caller.\<close>

definition MultiAgentSystem_init ::
  "externals \<Rightarrow> nat \<Rightarrow> nat \<Rightarrow> nat \<Rightarrow> vec \<Rightarrow> (nat \<Rightarrow> nat \<Rightarrow> 'g \<Rightarrow> error + agent_dict) \<Rightarrow> 'g
     \<Rightarrow> string \<Rightarrow> real list \<Rightarrow> error + MultiAgentSystem" where
  "MultiAgentSystem_init ext n adim cdim global_goal state_gen state_gen_args algo algo_params =
     (case state_gen adim n state_gen_args of
        Inl e \<Rightarrow> Inl e
      | Inr ags \<Rightarrow>
          (case re_eval_system ext
                  \<lparr>n_agents = n, sys_agent_dim = adim, control_dim = cdim,
                   full_system_state = zeros n adim, system_goal = global_goal,
                   agents = ags, clust_algo = algo, clust_algo_params = algo_params,
                   avg_goal_dist = PosInf, control_solution_time = 0,
                   clust_labels = [], n_clusters = 0, clusters = [],
                   cluster_centroids = []\<rparr> of
             (Some e, s) \<Rightarrow> Inl e
           | (None, s) \<Rightarrow> Inr s))"

subsection \<open>\<open>update_system_simplified\<close>\<close>

text \<open>
  \<open>for cluster in self.clusters\<close> iterates over a dict, which yields its keys: the loop
  variable \<open>cluster\<close> is the integer \<open>cdx\<close>, not the cluster object stored under it. An
  integer has neither an attribute \<open>centroid\<close> nor an attribute \<open>propagate_input\<close>;
  reading either raises AttributeError. The loop runs over the dict that \<open>self.clusters\<close>
  is when the loop starts.
\<close>

definition int_centroid :: "nat \<Rightarrow> error + vec" where
  "int_centroid cluster = Inl AttributeError"

definition int_propagate_input :: "nat \<Rightarrow> vec \<Rightarrow> error + unit" where
  "int_propagate_input cluster control_val = Inl AttributeError"

definition simplified_step ::
  "externals \<Rightarrow> real \<Rightarrow> nat \<Rightarrow> MultiAgentSystem \<Rightarrow> error option \<times> MultiAgentSystem" where
  "simplified_step ext step_size cluster s =
     (case int_centroid cluster of
        Inl e \<Rightarrow> (Some e, s)
      | Inr centroid0 \<Rightarrow>
          (case np_sub (system_goal s) centroid0 of
             Inl e \<Rightarrow> (Some e, s)
           | Inr diff \<Rightarrow>
               (case int_propagate_input cluster (map (\<lambda>x. step_size * x) diff) of
                  Inl e \<Rightarrow> (Some e, s)
                | Inr u \<Rightarrow> re_eval_system ext s)))"

definition update_system_simplified ::
  "externals \<Rightarrow> real \<Rightarrow> MultiAgentSystem \<Rightarrow> error option \<times> MultiAgentSystem" where
  "update_system_simplified ext step_size s =
     for_each (map fst (clusters s)) (simplified_step ext step_size) s"

subsection \<open>\<open>update_system_mpc_distributed\<close>\<close>

text \<open>
  The loop state is the local \<open>cost_val\<close> and the system. The body works on the
  \<open>i\<close>-th item of \<open>self.agents\<close>; the dict has the same items, in the same order, through
  the whole loop. \<open>time_0\<close> and \<open>time_1\<close> are the two readings of the clock.
\<close>

definition distributed_step ::
  "externals \<Rightarrow> mat \<Rightarrow> mat \<Rightarrow> mat \<Rightarrow> nat \<Rightarrow> operand option \<Rightarrow> operand option
     \<Rightarrow> nat \<Rightarrow> real \<times> MultiAgentSystem \<Rightarrow> error option \<times> real \<times> MultiAgentSystem" where
  "distributed_step ext Q R P n_t umax umin i cs =
     (case cs of (cost_val, s) \<Rightarrow>
        (case agents s ! i of (adx, agent) \<Rightarrow>
           (case use_modeling_tool ext (agent_A agent) (agent_B agent) n_t Q R P (state agent)
                   (Some (system_goal s)) umax umin of
              Inl e \<Rightarrow> (Some e, cost_val, s)
            | Inr (state_dynamics, u_dynamics, cost_val_agnt) \<Rightarrow>
                (case last_column state_dynamics of
                   Inl e \<Rightarrow> (Some e, cost_val + cost_val_agnt, s)
                 | Inr v \<Rightarrow>
                     (case set_state v agent of
                        Inl e \<Rightarrow> (Some e, cost_val + cost_val_agnt, s)
                      | Inr agent' \<Rightarrow>
                          (case re_eval_system ext
                                  (s\<lparr>agents := (agents s)[i := (adx, agent')]\<rparr>) of
                             (r, s') \<Rightarrow> (r, cost_val + cost_val_agnt, s')))))))"

definition update_system_mpc_distributed ::
  "externals \<Rightarrow> real \<Rightarrow> real \<Rightarrow> mat \<Rightarrow> mat \<Rightarrow> mat \<Rightarrow> nat \<Rightarrow> operand option \<Rightarrow> operand option
     \<Rightarrow> MultiAgentSystem \<Rightarrow> (error + npfloat \<times> real) \<times> MultiAgentSystem" where
  "update_system_mpc_distributed ext time_0 time_1 Q R P n_t umax umin s =
     (case for_each [0..<length (agents s)] (distributed_step ext Q R P n_t umax umin) (0, s) of
        (Some e, cost_val, s') \<Rightarrow> (Inl e, s')
      | (None, cost_val, s') \<Rightarrow>
          (let s'' = s'\<lparr>control_solution_time :=
                          control_solution_time s' + (time_1 - time_0)\<rparr>
           in if n_agents s'' = 0 then (Inl ZeroDivisionError, s'')
              else (Inr (avg_goal_dist s'', cost_val / real (n_agents s'')), s'')))"

subsection \<open>\<open>update_system_mpc\<close>\<close>

text \<open>The first loop writes the matrices of each agent into the diagonal blocks of the
  joint \<open>A\<close> and \<open>B\<close>.\<close>

fun joint_dynamics :: "nat \<Rightarrow> nat \<Rightarrow> agent_dict \<Rightarrow> mat \<times> mat \<Rightarrow> error + mat \<times> mat" where
  "joint_dynamics adim cdim [] AB = Inr AB"
| "joint_dynamics adim cdim ((adx, agent) # rest) AB =
     (case set_block (fst AB) (adx * adim) ((adx + 1) * adim) (adx * adim) ((adx + 1) * adim)
             (agent_A agent) of
        Inl e \<Rightarrow> Inl e
      | Inr A' \<Rightarrow>
          (case set_block (snd AB) (adx * adim) ((adx + 1) * adim)
                  (adx * cdim) ((adx + 1) * cdim) (agent_B agent) of
             Inl e \<Rightarrow> Inl e
           | Inr B' \<Rightarrow> joint_dynamics adim cdim rest (A', B')))"

text \<open>The body of the second loop:
  \<open>agent.set_state(state_dynamics[adx * agent_dim : (adx + 1) * agent_dim, -1])\<close>.\<close>

definition commit_step ::
  "mat option \<Rightarrow> nat \<Rightarrow> MultiAgentSystem \<Rightarrow> error option \<times> MultiAgentSystem" where
  "commit_step state_dynamics i s =
     (case agents s ! i of (adx, agent) \<Rightarrow>
        (case rows_last_column state_dynamics (adx * sys_agent_dim s)
                ((adx + 1) * sys_agent_dim s) of
           Inl e \<Rightarrow> (Some e, s)
         | Inr v \<Rightarrow>
             (case set_state v agent of
                Inl e \<Rightarrow> (Some e, s)
              | Inr agent' \<Rightarrow> (None, s\<lparr>agents := (agents s)[i := (adx, agent')]\<rparr>))))"

definition update_system_mpc ::
  "externals \<Rightarrow> real \<Rightarrow> real \<Rightarrow> mat \<Rightarrow> mat \<Rightarrow> mat \<Rightarrow> nat \<Rightarrow> operand option \<Rightarrow> operand option
     \<Rightarrow> MultiAgentSystem \<Rightarrow> (error + npfloat \<times> real) \<times> MultiAgentSystem" where
  "update_system_mpc ext time_0 time_1 Q R P n_t umax umin s =
     (case joint_dynamics (sys_agent_dim s) (control_dim s) (agents s)
             (zeros (sys_agent_dim s * n_agents s) (sys_agent_dim s * n_agents s),
              zeros (sys_agent_dim s * n_agents s) (control_dim s * n_agents s)) of
        Inl e \<Rightarrow> (Inl e, s)
      | Inr (A0, B0) \<Rightarrow>
          (case use_modeling_tool ext A0 B0 n_t Q R P (concat (full_system_state s))
                  (Some (kron (ones (n_agents s)) (system_goal s))) umax umin of
             Inl e \<Rightarrow> (Inl e, s)
           | Inr (state_dynamics, u_dynamics, cost_val) \<Rightarrow>
               (case for_each [0..<length (agents s)] (commit_step state_dynamics)
                       (s\<lparr>control_solution_time :=
                             control_solution_time s + (time_1 - time_0)\<rparr>) of
                  (Some e, s') \<Rightarrow> (Inl e, s')
                | (None, s') \<Rightarrow>
                    (case re_eval_system ext s' of
                       (Some e, s'') \<Rightarrow> (Inl e, s'')
                     | (None, s'') \<Rightarrow> (Inr (avg_goal_dist s'', cost_val), s'')))))"


section \<open>What an operation changes\<close>

text \<open>The cluster assignment of a system; whether the first half of \<open>_re_eval_system\<close>,
  before the clustering, runs without raising; and the parts of an agent, of the agent
  dict and of the system that no operation is to touch.\<close>

definition cluster_assignment ::
  "MultiAgentSystem \<Rightarrow> int list \<times> int \<times> (nat \<times> LinearClusterNd) list \<times> (nat \<times> vec) list" where
  "cluster_assignment s = (clust_labels s, n_clusters s, clusters s, cluster_centroids s)"

definition state_gathered :: "MultiAgentSystem \<Rightarrow> bool" where
  "state_gathered s =
     (case gather_states (agents s) (full_system_state s) of
        (Some e, M) \<Rightarrow> False
      | (None, M) \<Rightarrow> (case sub_rows M (system_goal s) of Inl e \<Rightarrow> False | Inr d \<Rightarrow> True))"

definition agent_frame :: "LinearAgentNd \<Rightarrow> mat \<times> mat \<times> nat" where
  "agent_frame ag = (agent_A ag, agent_B ag, agent_dim ag)"

definition dict_frame :: "agent_dict \<Rightarrow> (nat \<times> mat \<times> mat \<times> nat) list" where
  "dict_frame d = map (\<lambda>(k, ag). (k, agent_frame ag)) d"

definition system_frame ::
  "MultiAgentSystem \<Rightarrow> (nat \<times> nat \<times> nat \<times> vec \<times> string \<times> real list) \<times> (nat \<times> mat \<times> mat \<times> nat) list" where
  "system_frame s =
     ((n_agents s, sys_agent_dim s, control_dim s, system_goal s, clust_algo s,
       clust_algo_params s), dict_frame (agents s))"

definition static_part ::
  "MultiAgentSystem \<Rightarrow> (nat \<times> nat \<times> nat \<times> vec \<times> string \<times> real list) \<times> agent_dict \<times> real" where
  "static_part s =
     ((n_agents s, sys_agent_dim s, control_dim s, system_goal s, clust_algo s,
       clust_algo_params s), agents s, control_solution_time s)"

section \<open>Systems in working order\<close>




section \<open>The per-agent solves of the distributed update\<close>





section \<open>The joint problem of the centralised update\<close>





section \<open>Example inputs\<close>

text \<open>
  Stand-ins for the external functions: a clustering that puts every agent into a
  cluster of its own (\<open>fclusterdata\<close> numbers its clusters from one, HDBSCAN from zero),
  and a solve that holds the state at \<open>x0\<close> for \<open>n_t\<close> stages and ends at the reference,
  at the cost of the squared distance between the two.
\<close>

definition example_ext :: externals where
  "example_ext =
     \<lparr>fclusterdata = (\<lambda>M thresh. Inr (map (\<lambda>i. int i + 1) [0..<length M])),
      hdbscan_labels = (\<lambda>alpha leaf_size min_cluster_size M. Inr (map int [0..<length M])),
      use_modeling_tool = (\<lambda>A0 B0 n_t Q R P x0 x_star_in umax umin.
         (case x_star_in of
            None \<Rightarrow> Inr (Some (map (\<lambda>x. replicate (n_t + 1) x) x0), None, 0)
          | Some x_star \<Rightarrow>
              Inr (Some (map2 (\<lambda>x g. replicate n_t x @ [g]) x0 x_star), None,
                   sum_list (map2 (\<lambda>x g. (x - g)\<^sup>2) x0 x_star))))\<rparr>"

text \<open>Two one-dimensional agents with \<open>A = B = 1\<close>, at \<open>0\<close> and at \<open>2\<close>, and the state
  generator that returns them.\<close>

definition example_agents :: agent_dict where
  "example_agents =
     [(0, \<lparr>agent_A = [[1]], agent_B = [[1]], state = [0], agent_dim = 1\<rparr>),
      (1, \<lparr>agent_A = [[1]], agent_B = [[1]], state = [2], agent_dim = 1\<rparr>)]"

definition example_gen :: "nat \<Rightarrow> nat \<Rightarrow> unit \<Rightarrow> error + agent_dict" where
  "example_gen adim n args = Inr example_agents"

text \<open>The system that \<open>MultiAgentSystem(n_agents=2, agent_dim=1, control_dim=1,
  global_goal=[1], clust_algo='hierarchy', clust_algo_params=[2])\<close> constructs from them.\<close>

definition example_system :: MultiAgentSystem where
  "example_system =
     \<lparr>n_agents = 2, sys_agent_dim = 1, control_dim = 1,
      full_system_state = [[0], [2]], system_goal = [1],
      agents = example_agents, clust_algo = ''hierarchy'', clust_algo_params = [2],
      avg_goal_dist = Finite 1, control_solution_time = 0,
      clust_labels = [0, 1], n_clusters = 2,
      clusters =
        [(0, \<lparr>cluster_agents = [0], cluster_n_agents = 1,
               full_cluster_state = [[0]], centroid = [0]\<rparr>),
         (1, \<lparr>cluster_agents = [1], cluster_n_agents = 1,
               full_cluster_state = [[2]], centroid = [2]\<rparr>)],
      cluster_centroids = [(0, [0]), (1, [2])]\<rparr>"






section \<open>Properties of agents\<close>

lemma dot_sum:
  "length r = length x \<Longrightarrow> dot r x = (\<Sum>j<length x. r ! j * x ! j)"
proof -
  assume len: "length r = length x"
  have "dot r x = (\<Sum>j = 0..<length (map2 (*) r x). map2 (*) r x ! j)"
    unfolding dot_def by (rule sum_list_sum_nth)
  also have "\<dots> = (\<Sum>j = 0..<length x. r ! j * x ! j)"
    using len by (intro sum.cong) auto
  finally show ?thesis by (simp add: lessThan_atLeast0)
qed

lemma matmul_vec_ok:
  "has_cols M (length x) \<Longrightarrow> matmul_vec M x = Inr (map (\<lambda>r. dot r x) M)"
  by (simp add: matmul_vec_def)

lemma np_add_same_length:
  "length x = length y \<Longrightarrow> np_add x y = Inr (map2 (+) x y)"
  by (simp add: np_add_def broadcast2_def broadcastable_def stretch2_def)

text \<open>
  Claim C6. For an agent with a \<open>D \<times> D\<close> matrix \<open>A\<close>, a \<open>D \<times> C\<close> matrix \<open>B\<close> and a state of
  length \<open>D\<close>, and a control vector \<open>u\<close> of length \<open>C\<close>, \<open>propagate_input u\<close> raises nothing,
  changes no field but the state, and the new state is \<open>A \<cdot> state + B \<cdot> u\<close>: its entry \<open>i\<close>
  is \<open>\<Sum>j A[i][j] \<cdot> state[j] + \<Sum>j B[i][j] \<cdot> u[j]\<close>.
\<close>

theorem propagate_input_linear_step:
  assumes ok: "agent_ok D C ag" and u: "length u = C"
  shows "\<exists>s'. propagate_input u ag = Inr (ag\<lparr>state := s'\<rparr>) \<and> length s' = D \<and>
           (\<forall>i<D. s' ! i = (\<Sum>j<D. agent_A ag ! i ! j * state ag ! j)
                          + (\<Sum>j<C. agent_B ag ! i ! j * u ! j))"
proof -
  let ?ax = "map (\<lambda>r. dot r (state ag)) (agent_A ag)"
  let ?bu = "map (\<lambda>r. dot r u) (agent_B ag)"
  from ok have lenA: "length (agent_A ag) = D" and colsA: "has_cols (agent_A ag) D"
    and lenB: "length (agent_B ag) = D" and colsB: "has_cols (agent_B ag) C"
    and lens: "length (state ag) = D"
    by (simp_all add: agent_ok_def has_shape_def)
  have ax: "matmul_vec (agent_A ag) (state ag) = Inr ?ax"
    using colsA lens by (simp add: matmul_vec_ok)
  have bu: "matmul_vec (agent_B ag) u = Inr ?bu"
    using colsB u by (simp add: matmul_vec_ok)
  have add: "np_add ?ax ?bu = Inr (map2 (+) ?ax ?bu)"
    using lenA lenB by (simp add: np_add_same_length)
  have run: "propagate_input u ag = Inr (ag\<lparr>state := map2 (+) ?ax ?bu\<rparr>)"
    by (simp add: propagate_input_def ax bu add)
  have entry: "map2 (+) ?ax ?bu ! i
      = (\<Sum>j<D. agent_A ag ! i ! j * state ag ! j) + (\<Sum>j<C. agent_B ag ! i ! j * u ! j)"
    if i: "i < D" for i
  proof -
    have rA: "length (agent_A ag ! i) = length (state ag)"
      using colsA lenA lens i by (simp add: has_cols_def)
    have rB: "length (agent_B ag ! i) = length u"
      using colsB lenB u i by (simp add: has_cols_def)
    have "map2 (+) ?ax ?bu ! i = dot (agent_A ag ! i) (state ag) + dot (agent_B ag ! i) u"
      using i lenA lenB by simp
    then show ?thesis
      using dot_sum [OF rA] dot_sum [OF rB] lens u by simp
  qed
  show ?thesis
    using run entry lenA lenB by (intro exI [of _ "map2 (+) ?ax ?bu"]) simp
qed

theorem propagate_input_linear_step_witness:
  "agent_ok 2 1 \<lparr>agent_A = [[1, 1], [0, 1]], agent_B = [[0], [1]], state = [3, 4], agent_dim = 2\<rparr>
   \<and> length [5::real] = 1
   \<and> propagate_input [5]
       \<lparr>agent_A = [[1, 1], [0, 1]], agent_B = [[0], [1]], state = [3, 4], agent_dim = 2\<rparr>
     = Inr \<lparr>agent_A = [[1, 1], [0, 1]], agent_B = [[0], [1]], state = [7, 9], agent_dim = 2\<rparr>"
proof -
  let ?ag = "\<lparr>agent_A = [[1, 1], [0, 1]], agent_B = [[0], [1]], state = [3, 4], agent_dim = 2\<rparr>"
  have ok: "agent_ok 2 1 ?ag"
    by (simp add: agent_ok_def has_shape_def has_cols_def)
  have u: "length [5::real] = 1" by simp
  from propagate_input_linear_step [OF ok u]
  obtain s' where run: "propagate_input [5] ?ag = Inr (?ag\<lparr>state := s'\<rparr>)"
    and len: "length s' = 2"
    and ent: "\<forall>i<2. s' ! i = (\<Sum>j<2. agent_A ?ag ! i ! j * state ?ag ! j)
                            + (\<Sum>j<1. agent_B ?ag ! i ! j * [5] ! j)"
    by blast
  from ent have "s' ! 0 = 7" and "s' ! 1 = 9"
    by (simp_all add: lessThan_Suc numeral_2_eq_2)
  with len have "s' = [7, 9]"
    by (cases s'; cases "tl s'") (auto simp: nth_Cons')
  with run ok u show ?thesis by simp
qed

text \<open>
  Claim C8 fails as stated. With agent dimension 2 and control dimension 1, a \<open>2 \<times> 2\<close>
  matrix \<open>A\<close>, a \<open>2 \<times> 1\<close> matrix \<open>B\<close> and an initial state of length 2, the constructor
  raises AssertionError: it asserts that \<open>B\<close> has \<open>agent_dim\<close> columns.
\<close>

theorem LinearAgentNd_init_control_dim_counterexample:
  "has_shape [[1, 0], [0, 1]] 2 2 \<and> has_shape [[0], [1]] 2 1 \<and> length [0::real, 0] = 2
   \<and> LinearAgentNd_init [[1, 0], [0, 1]] [[0], [1]] 2 [0, 0] = Inl AssertionError"
  by (simp add: LinearAgentNd_init_def has_shape_def has_cols_def)

text \<open>
  Claim C8, amended. The constructor returns an agent exactly when the initial state has
  \<open>agent_dim\<close> entries, \<open>A\<close> is \<open>agent_dim \<times> agent_dim\<close> and \<open>B\<close> has \<open>agent_dim\<close> columns, so
  the control dimension is the agent dimension; the agent then holds the matrices it was
  given, and neither \<open>propagate_input\<close> nor \<open>set_state\<close> changes \<open>A\<close>, \<open>B\<close> or \<open>agent_dim\<close>.
\<close>

theorem LinearAgentNd_init_accepts:
  "(LinearAgentNd_init A0 B0 adim init_state = Inr ag \<longleftrightarrow>
      length init_state = adim \<and> has_shape A0 adim adim \<and> has_cols B0 adim
      \<and> ag = \<lparr>agent_A = A0, agent_B = B0, state = init_state, agent_dim = adim\<rparr>)
   \<and> (\<forall>u ag'. propagate_input u ag = Inr ag' \<longrightarrow>
          agent_A ag' = agent_A ag \<and> agent_B ag' = agent_B ag \<and> agent_dim ag' = agent_dim ag)
   \<and> (\<forall>v ag'. set_state v ag = Inr ag' \<longrightarrow>
          agent_A ag' = agent_A ag \<and> agent_B ag' = agent_B ag \<and> agent_dim ag' = agent_dim ag)"
proof (intro conjI allI impI)
  show "LinearAgentNd_init A0 B0 adim init_state = Inr ag \<longleftrightarrow>
      length init_state = adim \<and> has_shape A0 adim adim \<and> has_cols B0 adim
      \<and> ag = \<lparr>agent_A = A0, agent_B = B0, state = init_state, agent_dim = adim\<rparr>"
    by (auto simp: LinearAgentNd_init_def)
next
  fix u ag' assume "propagate_input u ag = Inr ag'"
  then obtain s' where "ag' = ag\<lparr>state := s'\<rparr>"
    by (auto simp: propagate_input_def split: sum.splits)
  then show "agent_A ag' = agent_A ag" "agent_B ag' = agent_B ag" "agent_dim ag' = agent_dim ag"
    by simp_all
next
  fix v ag' assume "set_state v ag = Inr ag'"
  then have "ag' = ag\<lparr>state := v\<rparr>"
    by (auto simp: set_state_def split: if_splits)
  then show "agent_A ag' = agent_A ag" "agent_B ag' = agent_B ag" "agent_dim ag' = agent_dim ag"
    by simp_all
qed

theorem LinearAgentNd_init_accepts_witness:
  "length [0::real, 0] = 2 \<and> has_shape [[1, 0], [0, 1]] 2 2 \<and> has_cols [[1, 0], [0, 1]] 2
   \<and> LinearAgentNd_init [[1, 0], [0, 1]] [[1, 0], [0, 1]] 2 [0, 0]
       = Inr \<lparr>agent_A = [[1, 0], [0, 1]], agent_B = [[1, 0], [0, 1]], state = [0, 0], agent_dim = 2\<rparr>
   \<and> propagate_input [1, 2]
         \<lparr>agent_A = [[1, 0], [0, 1]], agent_B = [[1, 0], [0, 1]], state = [0, 0], agent_dim = 2\<rparr>
       = Inr \<lparr>agent_A = [[1, 0], [0, 1]], agent_B = [[1, 0], [0, 1]], state = [1, 2], agent_dim = 2\<rparr>
   \<and> set_state [3, 4]
         \<lparr>agent_A = [[1, 0], [0, 1]], agent_B = [[1, 0], [0, 1]], state = [0, 0], agent_dim = 2\<rparr>
       = Inr \<lparr>agent_A = [[1, 0], [0, 1]], agent_B = [[1, 0], [0, 1]], state = [3, 4], agent_dim = 2\<rparr>"
proof -
  let ?I = "[[1, 0], [0, 1]] :: mat"
  let ?ag = "\<lparr>agent_A = ?I, agent_B = ?I, state = [0, 0], agent_dim = 2\<rparr>"
  have h: "length [0::real, 0] = 2" "has_shape ?I 2 2" "has_cols ?I 2"
    by (simp_all add: has_shape_def has_cols_def)
  note acc = LinearAgentNd_init_accepts [of ?I ?I 2 "[0, 0]" ?ag]
  from acc h have init: "LinearAgentNd_init ?I ?I 2 [0, 0] = Inr ?ag"
    by blast
  have p: "propagate_input [1, 2] ?ag
       = Inr \<lparr>agent_A = ?I, agent_B = ?I, state = [1, 2], agent_dim = 2\<rparr>"
    by (simp add: propagate_input_def matmul_vec_def has_cols_def dot_def np_add_def
          broadcast2_def broadcastable_def stretch2_def)
  have q: "set_state [3, 4] ?ag
       = Inr \<lparr>agent_A = ?I, agent_B = ?I, state = [3, 4], agent_dim = 2\<rparr>"
    by (simp add: set_state_def)
  show ?thesis
    using h init p q by (intro conjI)
qed


section \<open>Properties of the optimisation problems\<close>

lemmas problem_defs =
  conventional_problem_def conventional_stage_def microcoupling_problem_def
  microcoupling_stage_def mesocoupling_problem_def meso_stage_def micro_stage_def
  coupling_stage_def terminal_part_def bound_ge_def bound_le_def input_bounds_def
  stage_state_cost_def dynamics_def floordiv_def column0_def

lemma for_range_snoc:
  "for_range (ts @ [t]) body st =
     (case for_range ts body st of Inl e \<Rightarrow> Inl e | Inr st' \<Rightarrow> body t st')"
  by (induction ts arbitrary: st) (auto split: sum.splits)

lemma for_range_invariant:
  assumes run: "for_range [0..<N] body st0 = Inr st"
    and init: "I 0 st0"
    and step: "\<And>t s s'. t < N \<Longrightarrow> I t s \<Longrightarrow> body t s = Inr s' \<Longrightarrow> I (Suc t) s'"
  shows "I N st"
  using run step
proof (induction N arbitrary: st)
  case 0
  with init show ?case by simp
next
  case (Suc N)
  from Suc.prems(1) obtain s where mid: "for_range [0..<N] body st0 = Inr s"
    and last: "body N s = Inr st"
    by (auto simp: for_range_snoc split: sum.splits)
  have "I N s"
    using mid Suc.prems(2) by (intro Suc.IH) auto
  then show ?case
    using last Suc.prems(2) by blast
qed

lemma conventional_stage_cost:
  "conventional_stage A0 B0 Q R nx adim xmin xmax x_star_in coll_d t (c, k) = Inr (c', k')
   \<Longrightarrow> c' = SAdd (SAdd c (stage_state_cost Var_x Q x_star_in t))
                  (Scale (1/2) (QuadForm (Column Var_u t) R))"
  by (auto simp: conventional_stage_def Let_def split: sum.splits option.splits)

lemma terminal_part_cost:
  "terminal_part x u N P x0 umax umin xmin xmax (c, k) = Inr (c', k')
   \<Longrightarrow> c' = SAdd c (Scale (1/2) (QuadForm (Column x N) P))"
  by (auto simp: terminal_part_def Let_def split: sum.splits)

lemma conventional_loop_cost:
  assumes "for_range [0..<N] (conventional_stage A0 B0 Q R nx adim xmin xmax x_star_in coll_d)
             (c0, k0) = Inr (c, k)"
  shows "eval_s \<rho> c = eval_s \<rho> c0
           + (\<Sum>t<N. eval_s \<rho> (stage_state_cost Var_x Q x_star_in t)
                     + 1/2 * quad_form (col (\<rho> Var_u) t) R)"
proof -
  let ?I = "\<lambda>n st. eval_s \<rho> (fst st) = eval_s \<rho> c0
           + (\<Sum>t<n. eval_s \<rho> (stage_state_cost Var_x Q x_star_in t)
                     + 1/2 * quad_form (col (\<rho> Var_u) t) R)"
  have "?I N (c, k)"
  proof (rule for_range_invariant [OF assms, where I = ?I])
    show "?I 0 (c0, k0)" by simp
  next
    fix t s s'
    assume "?I t s"
      and "conventional_stage A0 B0 Q R nx adim xmin xmax x_star_in coll_d t s = Inr s'"
    then show "?I (Suc t) s'"
      using conventional_stage_cost [of A0 B0 Q R nx adim xmin xmax x_star_in coll_d t "fst s" "snd s" "fst s'" "snd s'"]
      by simp
  qed
  then show ?thesis by simp
qed

text \<open>
  Claim C3. In \<open>conventional_solve\<close> with a reference \<open>x_star\<close> supplied, for every horizon
  \<open>N\<close>, the objective is the sum over the stages \<open>t = 0, \<dots>, N - 1\<close> of
  \<open>\<onehalf>(x[t] - x_star)\<^sup>T Q (x[t] - x_star) + \<onehalf> u[t]\<^sup>T R u[t]\<close> plus the terminal term
  \<open>\<onehalf> x[N]\<^sup>T P x[N]\<close>: the last summand of the objective is the quadratic form of the raw
  column \<open>x[:, N]\<close>, in which the reference does not occur.
\<close>

theorem conventional_solve_cost:
  assumes "conventional_problem A0 B0 N Q R P x0 adim umax umin xmin xmax (Some x_star) coll_d
             = Inr (costlist, constrlist)"
  shows "(\<exists>stages. costlist = SAdd stages (Scale (1/2) (QuadForm (Column Var_x N) P)))
       \<and> (\<forall>\<rho>. eval_s \<rho> costlist =
            (\<Sum>t<N. 1/2 * quad_form (map2 (-) (col (\<rho> Var_x) t) x_star) Q
                    + 1/2 * quad_form (col (\<rho> Var_u) t) R)
            + 1/2 * quad_form (col (\<rho> Var_x) N) P)"
proof -
  from assms obtain c k where
    loop: "for_range [0..<N]
             (conventional_stage A0 B0 Q R (length B0) adim xmin xmax (Some x_star) coll_d)
             (Num 0, []) = Inr (c, k)"
    and fin: "terminal_part Var_x Var_u N P x0 umax umin xmin xmax (c, k) = Inr (costlist, constrlist)"
    by (auto simp: conventional_problem_def split: sum.splits)
  have shape: "costlist = SAdd c (Scale (1/2) (QuadForm (Column Var_x N) P))"
    using fin by (rule terminal_part_cost)
  have "eval_s \<rho> costlist =
            (\<Sum>t<N. 1/2 * quad_form (map2 (-) (col (\<rho> Var_x) t) x_star) Q
                    + 1/2 * quad_form (col (\<rho> Var_u) t) R)
            + 1/2 * quad_form (col (\<rho> Var_x) N) P" for \<rho>
    using conventional_loop_cost [OF loop, of \<rho>] shape
    by (simp add: stage_state_cost_def)
  with shape show ?thesis by blast
qed

theorem conventional_solve_cost_witness:
  "conventional_problem [[1]] [[1]] 1 [[2]] [[0]] [[3]] [0] 1 None None None None (Some [5]) None
     = Inr (SAdd (SAdd (SAdd (Num 0)
                    (Scale (1/2) (QuadForm (Sub (Column Var_x 0) (Constant [5])) [[2]])))
                    (Scale (1/2) (QuadForm (Column Var_u 0) [[0]])))
                 (Scale (1/2) (QuadForm (Column Var_x 1) [[3]])),
            [Eq (Column Var_x 1)
                (Add (MatMul [[1]] (Column Var_x 0)) (MatMul [[1]] (Column Var_u 0))),
             Eq (Column Var_x 0) (Constant [0])])
   \<and> eval_s (\<lambda>v. [[0, 5]])
        (SAdd (SAdd (SAdd (Num 0)
                    (Scale (1/2) (QuadForm (Sub (Column Var_x 0) (Constant [5])) [[2]])))
                    (Scale (1/2) (QuadForm (Column Var_u 0) [[0]])))
                 (Scale (1/2) (QuadForm (Column Var_x 1) [[3]])))
       = 1/2 * quad_form [0 - 5] [[2]] + 1/2 * quad_form [0] [[0]] + 1/2 * quad_form [5] [[3]]"
proof -
  let ?cost = "SAdd (SAdd (SAdd (Num 0)
                    (Scale (1/2) (QuadForm (Sub (Column Var_x 0) (Constant [5])) [[2]])))
                    (Scale (1/2) (QuadForm (Column Var_u 0) [[0]])))
                 (Scale (1/2) (QuadForm (Column Var_x 1) [[3]]))"
  let ?cons = "[Eq (Column Var_x 1)
                (Add (MatMul [[1]] (Column Var_x 0)) (MatMul [[1]] (Column Var_u 0))),
             Eq (Column Var_x 0) (Constant [0])]"
  have h: "conventional_problem [[1]] [[1]] 1 [[2]] [[0]] [[3]] [0] 1 None None None None
             (Some [5]) None = Inr (?cost, ?cons)"
    by (simp add: problem_defs)
  from conventional_solve_cost [OF h]
  have "eval_s (\<lambda>v. [[0, 5]]) ?cost =
            (\<Sum>t<1. 1/2 * quad_form (map2 (-) (col ((\<lambda>v. [[0, 5]]) Var_x) t) [5]) [[2]]
                    + 1/2 * quad_form (col ((\<lambda>v. [[0, 5]]) Var_u) t) [[0]])
            + 1/2 * quad_form (col ((\<lambda>v. [[0, 5]]) Var_x) 1) [[3]]"
    by blast
  then have "eval_s (\<lambda>v. [[0, 5]]) ?cost
       = 1/2 * quad_form [0 - 5] [[2]] + 1/2 * quad_form [0] [[0]] + 1/2 * quad_form [5] [[3]]"
    by (simp add: col_def)
  with h show ?thesis by blast
qed

lemma variables_pair: "variables (c, k) = vars_s c \<union> constr_vars k"
  by (simp add: variables_def constr_vars_def)

lemma constr_vars_append [simp]: "constr_vars (k @ k') = constr_vars k \<union> constr_vars k'"
  by (auto simp: constr_vars_def)

lemma constr_vars_single [simp]: "constr_vars [c] = vars_c c"
  by (simp add: constr_vars_def)

lemma bound_ge_vars:
  "bound_ge xmin e k = Inr k' \<Longrightarrow> constr_vars k' \<subseteq> constr_vars k \<union> vars_v e"
  by (auto simp: bound_ge_def split: option.splits sum.splits)

lemma bound_le_vars:
  "bound_le xmax e k = Inr k' \<Longrightarrow> constr_vars k' \<subseteq> constr_vars k \<union> vars_v e"
  by (auto simp: bound_le_def split: option.splits sum.splits)

lemma input_bounds_vars:
  "constr_vars (input_bounds u umax umin k) \<subseteq> constr_vars k \<union> {u}"
  by (auto simp: input_bounds_def Let_def split: option.splits)

lemma stage_state_cost_vars: "vars_s (stage_state_cost x Q x_star_in t) = {x}"
  by (simp add: stage_state_cost_def split: option.splits)

lemma meso_stage_vars:
  assumes "meso_stage A_mes B_mes Q R_mes xmin_mes xmax_mes x_star_in t st = Inr st'"
    and "variables st \<subseteq> {Var_x_mes, Var_u_mes}"
  shows "variables st' \<subseteq> {Var_x_mes, Var_u_mes}"
proof -
  obtain c k where st: "st = (c, k)" by (cases st)
  from assms(1) obtain k2 where
    k2: "bound_ge xmin_mes (Column Var_x_mes t) (k @ [dynamics Var_x_mes Var_u_mes A_mes B_mes t]) = Inr k2"
    and k3: "bound_le xmax_mes (Column Var_x_mes t) k2 = Inr (snd st')"
    and c': "fst st' = SAdd (SAdd c (stage_state_cost Var_x_mes Q x_star_in t))
                        (Scale (1/2) (QuadForm (Column Var_u_mes t) R_mes))"
    by (auto simp: meso_stage_def st Let_def split: sum.splits)
  have "constr_vars (snd st') \<subseteq> constr_vars k \<union> {Var_x_mes, Var_u_mes}"
    using bound_ge_vars [OF k2] bound_le_vars [OF k3] by (auto simp: dynamics_def)
  moreover have "vars_s (fst st') \<subseteq> vars_s c \<union> {Var_x_mes, Var_u_mes}"
    by (auto simp: c' stage_state_cost_vars)
  ultimately show ?thesis
    using assms(2) variables_pair [of "fst st'" "snd st'"] by (auto simp: st variables_pair)
qed

lemma terminal_part_vars:
  assumes "terminal_part x u N P x0 umax umin xmin xmax st = Inr st'"
  shows "variables st' \<subseteq> variables st \<union> {x, u}"
proof -
  obtain c k where st: "st = (c, k)" by (cases st)
  from assms obtain k1 k2 where
    k1: "bound_ge xmin (Column x N) k = Inr k1"
    and k2: "bound_le xmax (Column x N) k1 = Inr k2"
    and st': "st' = (SAdd c (Scale (1/2) (QuadForm (Column x N) P)),
                     input_bounds u umax umin k2 @ [Eq (Column x 0) (Constant x0)])"
    by (auto simp: terminal_part_def st Let_def split: sum.splits)
  show ?thesis
    using bound_ge_vars [OF k1] bound_le_vars [OF k2] input_bounds_vars [of u umax umin k2]
    by (auto simp: st st' variables_pair)
qed

lemma meso_stage_cost:
  "meso_stage A_mes B_mes Q R_mes xmin_mes xmax_mes x_star_in t (c, k) = Inr (c', k')
   \<Longrightarrow> c' = SAdd (SAdd c (stage_state_cost Var_x_mes Q x_star_in t))
                  (Scale (1/2) (QuadForm (Column Var_u_mes t) R_mes))"
  by (auto simp: meso_stage_def Let_def split: sum.splits)

lemma meso_loop:
  assumes "for_range [0..<N] (meso_stage A_mes B_mes Q R_mes xmin_mes xmax_mes x_star_in)
             (Num 0, []) = Inr st"
  shows "variables st \<subseteq> {Var_x_mes, Var_u_mes}
       \<and> eval_s \<rho> (fst st) =
           (\<Sum>t<N. eval_s \<rho> (stage_state_cost Var_x_mes Q x_star_in t)
                   + 1/2 * quad_form (col (\<rho> Var_u_mes) t) R_mes)"
proof -
  let ?I = "\<lambda>n st. variables st \<subseteq> {Var_x_mes, Var_u_mes}
       \<and> eval_s \<rho> (fst st) =
           (\<Sum>t<n. eval_s \<rho> (stage_state_cost Var_x_mes Q x_star_in t)
                   + 1/2 * quad_form (col (\<rho> Var_u_mes) t) R_mes)"
  show ?thesis
  proof (rule for_range_invariant [OF assms, where I = ?I])
    show "?I 0 (Num 0, [])" by (simp add: variables_def)
  next
    fix t s s'
    assume inv: "?I t s"
      and run: "meso_stage A_mes B_mes Q R_mes xmin_mes xmax_mes x_star_in t s = Inr s'"
    have "variables s' \<subseteq> {Var_x_mes, Var_u_mes}"
      using meso_stage_vars [OF run] inv by blast
    moreover have "fst s' = SAdd (SAdd (fst s) (stage_state_cost Var_x_mes Q x_star_in t))
                  (Scale (1/2) (QuadForm (Column Var_u_mes t) R_mes))"
      using run meso_stage_cost [of A_mes B_mes Q R_mes xmin_mes xmax_mes x_star_in t "fst s" "snd s" "fst s'" "snd s'"]
      by simp
    ultimately show "?I (Suc t) s'"
      using inv by simp
  qed
qed

text \<open>
  Claim C4. When \<open>mesocoupling_solve\<close> is called without a coupling weight (\<open>L\<close> is \<open>None\<close>)
  and returns, the problem it solved mentions neither micro variable, in the objective
  or in a constraint; its objective is the meso cost, the stage costs over \<open>N_mes\<close> stages
  plus the terminal term on \<open>x_mes[:, N_mes]\<close>; the returned cost is the solver's value of
  that problem, and the returned micro state and control trajectories are \<open>None\<close>.
\<close>

theorem mesocoupling_without_coupling_weight:
  assumes "mesocoupling_solve solve A_mes B_mes N_mes Q R_mes P x0_mes adim
             A_mic B_mic N_mic R_mic x0_mic None L_lambda
             umax_mes umin_mes umax_mic umin_mic xmin_mes xmax_mes xmin_mic xmax_mic
             x_star_in coll_d
           = Inr (x_mes, x_mic, u_mes, u_mic, cost_val)"
  shows "\<exists>pr sol.
           mesocoupling_problem A_mes B_mes N_mes Q R_mes P x0_mes adim
             A_mic B_mic N_mic R_mic x0_mic None L_lambda
             umax_mes umin_mes umax_mic umin_mic xmin_mes xmax_mes xmin_mic xmax_mic
             x_star_in coll_d = Inr pr
         \<and> Var_x_mic \<notin> variables pr \<and> Var_u_mic \<notin> variables pr
         \<and> variables pr \<subseteq> {Var_x_mes, Var_u_mes}
         \<and> (\<forall>\<rho>. eval_s \<rho> (fst pr) =
               (\<Sum>t<N_mes. eval_s \<rho> (stage_state_cost Var_x_mes Q x_star_in t)
                           + 1/2 * quad_form (col (\<rho> Var_u_mes) t) R_mes)
               + 1/2 * quad_form (col (\<rho> Var_x_mes) N_mes) P)
         \<and> solve (fst pr) (snd pr) = Inr (sol, cost_val)
         \<and> x_mes = sol Var_x_mes
         \<and> x_mic = None \<and> u_mic = None"
proof -
  from assms obtain pr sol where
    pr: "mesocoupling_problem A_mes B_mes N_mes Q R_mes P x0_mes adim
             A_mic B_mic N_mic R_mic x0_mic None L_lambda
             umax_mes umin_mes umax_mic umin_mic xmin_mes xmax_mes xmin_mic xmax_mic
             x_star_in coll_d = Inr pr"
    and sol: "solve (fst pr) (snd pr) = Inr (sol, cost_val)"
    and vals: "x_mes = value_of pr sol Var_x_mes" "x_mic = value_of pr sol Var_x_mic"
      "u_mic = value_of pr sol Var_u_mic"
    by (auto simp: mesocoupling_solve_def split: sum.splits)
  from pr obtain st where
    loop: "for_range [0..<N_mes] (meso_stage A_mes B_mes Q R_mes xmin_mes xmax_mes x_star_in)
             (Num 0, []) = Inr st"
    and fin: "terminal_part Var_x_mes Var_u_mes N_mes P x0_mes umax_mes umin_mes
                  xmin_mes xmax_mes st = Inr pr"
    by (auto simp: mesocoupling_problem_def split: sum.splits)
  have sub: "variables pr \<subseteq> {Var_x_mes, Var_u_mes}"
    using terminal_part_vars [OF fin] meso_loop [OF loop] by blast
  have cost: "fst pr = SAdd (fst st) (Scale (1/2) (QuadForm (Column Var_x_mes N_mes) P))"
    using fin terminal_part_cost [of Var_x_mes Var_u_mes N_mes P x0_mes umax_mes umin_mes
                  xmin_mes xmax_mes "fst st" "snd st" "fst pr" "snd pr"] by simp
  have xin: "Var_x_mes \<in> variables pr"
    by (simp add: variables_def cost)
  have ev: "eval_s \<rho> (fst pr) =
               (\<Sum>t<N_mes. eval_s \<rho> (stage_state_cost Var_x_mes Q x_star_in t)
                           + 1/2 * quad_form (col (\<rho> Var_u_mes) t) R_mes)
               + 1/2 * quad_form (col (\<rho> Var_x_mes) N_mes) P" for \<rho>
    using meso_loop [OF loop, of \<rho>] by (simp add: cost)
  have nomic: "Var_x_mic \<notin> variables pr" "Var_u_mic \<notin> variables pr"
    using sub by auto
  show ?thesis
    using pr sol vals sub ev nomic xin by (auto simp: value_of_def)
qed

theorem mesocoupling_without_coupling_weight_witness:
  "mesocoupling_solve (\<lambda>c k. Inr (\<lambda>v. Some [[0, 0]], 0))
       [[1]] [[1]] 1 [[1]] [[1]] [[1]] [0] 1
       [[1]] [[1]] 1 [[1]] [0] None 1
       None None None None None None None None None None
     = Inr (Some [[0, 0]], None, Some [[0, 0]], None, 0)
   \<and> (\<exists>pr. mesocoupling_problem [[1]] [[1]] 1 [[1]] [[1]] [[1]] [0] 1
              [[1]] [[1]] 1 [[1]] [0] None 1
              None None None None None None None None None None = Inr pr
          \<and> Var_x_mic \<notin> variables pr \<and> Var_u_mic \<notin> variables pr)"
proof -
  have h: "mesocoupling_solve (\<lambda>c k. Inr (\<lambda>v. Some [[0, 0]], 0))
       [[1]] [[1]] 1 [[1]] [[1]] [[1]] [0] 1
       [[1]] [[1]] 1 [[1]] [0] None 1
       None None None None None None None None None None
     = Inr (Some [[0, 0]], None, Some [[0, 0]], None, 0)"
    by (simp add: mesocoupling_solve_def problem_defs value_of_def variables_def)
  from mesocoupling_without_coupling_weight [OF h] h show ?thesis by blast
qed

lemma separation_loops_filter [simp]:
  "filter is_separation (separation_loops x adim d t n m) = separation_loops x adim d t n m"
  by (auto simp: separation_loops_def separation_def filter_concat filter_id_conv intro!: arg_cong [where f = concat])

lemma bound_ge_separations:
  "bound_ge xmin e k = Inr k' \<Longrightarrow> filter is_separation k' = filter is_separation k"
  by (auto simp: bound_ge_def split: option.splits sum.splits)

lemma bound_le_separations:
  "bound_le xmax e k = Inr k' \<Longrightarrow> filter is_separation k' = filter is_separation k"
  by (auto simp: bound_le_def split: option.splits sum.splits)

lemma input_bounds_separations:
  "filter is_separation (input_bounds u umax umin k) = filter is_separation k"
  by (auto simp: input_bounds_def Let_def split: option.splits)

lemma terminal_part_separations:
  "terminal_part x u N P x0 umax umin xmin xmax st = Inr st'
   \<Longrightarrow> filter is_separation (snd st') = filter is_separation (snd st)"
  by (cases st)
     (auto simp: terminal_part_def Let_def input_bounds_separations
           dest!: bound_ge_separations bound_le_separations split: sum.splits)

lemma conventional_stage_separations:
  assumes "conventional_stage A0 B0 Q R nx adim xmin xmax x_star_in (Some d) t st = Inr st'"
  shows "adim \<noteq> 0 \<and> filter is_separation (snd st') =
           filter is_separation (snd st)
             @ separation_loops Var_x adim d t (nx div adim) (nx div adim)"
  using assms
  by (cases st)
     (auto simp: conventional_stage_def Let_def dynamics_def floordiv_def
           dest!: bound_ge_separations bound_le_separations split: sum.splits if_splits)

lemma microcoupling_stage_separations:
  assumes "microcoupling_stage A0 B0 Q R nx adim xmin xmax x_star_in (Some d) t st = Inr st'"
  shows "adim \<noteq> 0 \<and> filter is_separation (snd st') =
           filter is_separation (snd st)
             @ separation_loops Var_x adim d t (nx div adim) (nx div adim - 1)"
  using assms
  by (cases st)
     (auto simp: microcoupling_stage_def Let_def dynamics_def floordiv_def
           dest!: bound_ge_separations bound_le_separations split: sum.splits if_splits)

lemma micro_stage_separations:
  assumes "micro_stage A_mic B_mic L L_lambda R_mic nx adim xmin xmax (Some d) t st = Inr st'"
  shows "adim \<noteq> 0 \<and> filter is_separation (snd st') =
           filter is_separation (snd st)
             @ separation_loops Var_x_mic adim d t (nx div adim) (nx div adim - 1)"
  using assms
  by (cases st)
     (auto simp: micro_stage_def Let_def dynamics_def floordiv_def
           dest!: bound_ge_separations bound_le_separations split: sum.splits if_splits)

lemma meso_stage_separations:
  assumes "meso_stage A_mes B_mes Q R_mes xmin xmax x_star_in t st = Inr st'"
  shows "filter is_separation (snd st') = filter is_separation (snd st)"
  using assms
  by (cases st)
     (auto simp: meso_stage_def Let_def dynamics_def
           dest!: bound_ge_separations bound_le_separations split: sum.splits)

lemma coupling_stage_separations:
  assumes "coupling_stage L L_lambda t st = Inr st'"
  shows "filter is_separation (snd st') = filter is_separation (snd st)"
  using assms by (cases st) (auto simp: coupling_stage_def)

text \<open>A loop whose every stage appends the separation constraints \<open>g t\<close>.\<close>

lemma for_range_separations:
  assumes run: "for_range [0..<N] body st0 = Inr st"
    and step: "\<And>t s s'. body t s = Inr s' \<Longrightarrow>
                 filter is_separation (snd s') = filter is_separation (snd s) @ g t"
  shows "filter is_separation (snd st) =
           filter is_separation (snd st0) @ concat (map g [0..<N])"
  by (rule for_range_invariant [OF run,
        where I = "\<lambda>n s. filter is_separation (snd s) =
                            filter is_separation (snd st0) @ concat (map g [0..<n])"])
     (simp_all add: step)

lemma separation_loops_member:
  "c \<in> set (separation_loops x adim d t n m) \<longleftrightarrow>
     (\<exists>idx jdx. idx < n \<and> idx < jdx \<and> jdx < m \<and> c = separation x adim d t idx jdx)"
  by (fastforce simp: separation_loops_def Suc_le_eq image_iff)

lemma for_range_first:
  "for_range [0..<Suc n] body st = Inr st' \<Longrightarrow> \<exists>s. body 0 st = Inr s"
  by (simp add: upt_conv_Cons del: upt_Suc split: sum.splits)

lemma separation_inject:
  "0 < adim \<Longrightarrow>
   separation x adim d t idx jdx = separation x' adim d' t' idx' jdx' \<longleftrightarrow>
     x = x' \<and> d = d' \<and> t = t' \<and> idx = idx' \<and> jdx = jdx'"
  by (auto simp: separation_def)

lemma separation_in_filter:
  "separation x adim d t idx jdx \<in> set (filter is_separation k) \<longleftrightarrow>
   separation x adim d t idx jdx \<in> set k"
  by (simp add: separation_def)

lemma separation_member_stages:
  assumes "N = 0 \<or> adim \<noteq> 0" "m \<le> n"
    and "filter is_separation k = concat (map (\<lambda>t. separation_loops x adim d t n m) [0..<N])"
  shows "separation x adim d t idx jdx \<in> set k \<longleftrightarrow> t < N \<and> idx < jdx \<and> jdx < m"
proof -
  have "separation x adim d t idx jdx \<in> set k \<longleftrightarrow>
        separation x adim d t idx jdx \<in> set (filter is_separation k)"
    by (simp add: separation_def)
  also have "\<dots> \<longleftrightarrow> t < N \<and> idx < jdx \<and> jdx < m"
  proof (cases "N = 0")
    case True
    then show ?thesis by (simp add: assms(3))
  next
    case False
    with assms(1) have "0 < adim" by simp
    then show ?thesis
      unfolding assms(3) using assms(2)
      by (auto simp: separation_loops_member separation_inject)
  qed
  finally show ?thesis .
qed

lemma conventional_problem_separations:
  assumes "conventional_problem A0 B0 N Q R P x0 adim umax umin xmin xmax x_star_in (Some d)
             = Inr pr"
  shows "(N = 0 \<or> adim \<noteq> 0) \<and> filter is_separation (snd pr) =
           concat (map (\<lambda>t. separation_loops Var_x adim d t
                               (length B0 div adim) (length B0 div adim)) [0..<N])"
proof -
  from assms obtain st where
    loop: "for_range [0..<N]
             (conventional_stage A0 B0 Q R (length B0) adim xmin xmax x_star_in (Some d))
             (Num 0, []) = Inr st"
    and fin: "terminal_part Var_x Var_u N P x0 umax umin xmin xmax st = Inr pr"
    by (auto simp: conventional_problem_def split: sum.splits)
  have "filter is_separation (snd st) = filter is_separation (snd (Num 0, []))
          @ concat (map (\<lambda>t. separation_loops Var_x adim d t
                               (length B0 div adim) (length B0 div adim)) [0..<N])"
    using loop by (rule for_range_separations) (simp add: conventional_stage_separations)
  moreover have "N = 0 \<or> adim \<noteq> 0"
  proof (cases N)
    case (Suc n)
    from loop obtain s where "conventional_stage A0 B0 Q R (length B0) adim xmin xmax x_star_in (Some d) 0 (Num 0, []) = Inr s"
      unfolding Suc by (blast dest: for_range_first)
    then show ?thesis using conventional_stage_separations by blast
  qed simp
  ultimately show ?thesis
    using terminal_part_separations [OF fin] by simp
qed

lemma microcoupling_problem_separations:
  assumes "microcoupling_problem A0 B0 N Q R P x0 adim N_cpl L L_lambda
             umax umin xmin xmax x_star_in (Some d) = Inr pr"
  shows "(N = 0 \<or> adim \<noteq> 0) \<and> filter is_separation (snd pr) =
           concat (map (\<lambda>t. separation_loops Var_x adim d t
                               (length B0 div adim) (length B0 div adim - 1)) [0..<N])"
proof -
  from assms obtain st st' where
    loop: "for_range [0..<N]
             (microcoupling_stage A0 B0 Q R (length B0) adim xmin xmax x_star_in (Some d))
             (Num 0, []) = Inr st"
    and fin: "terminal_part Var_x Var_u N P x0 umax umin xmin xmax st = Inr st'"
    and cpl: "(case L of None \<Rightarrow> Inr st'
               | Some L0 \<Rightarrow> for_range [0..<N_cpl] (coupling_stage L0 L_lambda) st') = Inr pr"
    by (auto simp: microcoupling_problem_def split: sum.splits)
  have "filter is_separation (snd st) = filter is_separation (snd (Num 0, []))
          @ concat (map (\<lambda>t. separation_loops Var_x adim d t
                               (length B0 div adim) (length B0 div adim - 1)) [0..<N])"
    using loop by (rule for_range_separations) (simp add: microcoupling_stage_separations)
  moreover have "N = 0 \<or> adim \<noteq> 0"
  proof (cases N)
    case (Suc n)
    from loop obtain s where "microcoupling_stage A0 B0 Q R (length B0) adim xmin xmax x_star_in (Some d) 0 (Num 0, []) = Inr s"
      unfolding Suc by (blast dest: for_range_first)
    then show ?thesis using microcoupling_stage_separations by blast
  qed simp
  moreover have "filter is_separation (snd pr) = filter is_separation (snd st')"
  proof (cases L)
    case None
    with cpl show ?thesis by simp
  next
    case (Some L0)
    with cpl have "for_range [0..<N_cpl] (coupling_stage L0 L_lambda) st' = Inr pr" by simp
    then have "filter is_separation (snd pr) =
                 filter is_separation (snd st') @ concat (map (\<lambda>t. []) [0..<N_cpl])"
      by (rule for_range_separations) (simp add: coupling_stage_separations)
    then show ?thesis by simp
  qed
  ultimately show ?thesis
    using terminal_part_separations [OF fin] by simp
qed

lemma mesocoupling_problem_separations:
  assumes "mesocoupling_problem A_mes B_mes N_mes Q R_mes P x0_mes adim
             A_mic B_mic N_mic R_mic x0_mic L L_lambda
             umax_mes umin_mes umax_mic umin_mic xmin_mes xmax_mes xmin_mic xmax_mic
             x_star_in (Some d) = Inr pr"
  shows "(L = None \<or> N_mic = 0 \<or> adim \<noteq> 0) \<and> filter is_separation (snd pr) =
           (case L of None \<Rightarrow> []
            | Some L0 \<Rightarrow>
                concat (map (\<lambda>t. separation_loops Var_x_mic adim d t
                               (length B_mic div adim) (length B_mic div adim - 1)) [0..<N_mic]))"
proof -
  from assms obtain st st' where
    loop: "for_range [0..<N_mes] (meso_stage A_mes B_mes Q R_mes xmin_mes xmax_mes x_star_in)
             (Num 0, []) = Inr st"
    and fin: "terminal_part Var_x_mes Var_u_mes N_mes P x0_mes umax_mes umin_mes
                  xmin_mes xmax_mes st = Inr st'"
    and rest: "(case L of None \<Rightarrow> Inr st'
                | Some L0 \<Rightarrow>
                    (case for_range [0..<N_mic]
                            (micro_stage A_mic B_mic L0 L_lambda R_mic (length B_mic) adim
                               xmin_mic xmax_mic (Some d)) st' of
                       Inl e \<Rightarrow> Inl e
                     | Inr (costlist, constrlist) \<Rightarrow>
                         Inr (costlist,
                              input_bounds Var_u_mic umax_mic umin_mic constrlist
                                @ [Eq (Column Var_x_mic 0) (Constant x0_mic)]))) = Inr pr"
    by (auto simp: mesocoupling_problem_def split: sum.splits)
  have "filter is_separation (snd st) =
          filter is_separation (snd (Num 0, [])) @ concat (map (\<lambda>t. []) [0..<N_mes])"
    using loop by (rule for_range_separations) (simp add: meso_stage_separations)
  then have none: "filter is_separation (snd st') = []"
    using terminal_part_separations [OF fin] by simp
  show ?thesis
  proof (cases L)
    case None
    with rest none show ?thesis by simp
  next
    case (Some L0)
    with rest obtain c k where
      mic: "for_range [0..<N_mic]
              (micro_stage A_mic B_mic L0 L_lambda R_mic (length B_mic) adim
                 xmin_mic xmax_mic (Some d)) st' = Inr (c, k)"
      and pr: "pr = (c, input_bounds Var_u_mic umax_mic umin_mic k
                          @ [Eq (Column Var_x_mic 0) (Constant x0_mic)])"
      by (auto split: sum.splits)
    have "filter is_separation (snd (c, k)) = filter is_separation (snd st')
            @ concat (map (\<lambda>t. separation_loops Var_x_mic adim d t
                               (length B_mic div adim) (length B_mic div adim - 1)) [0..<N_mic])"
      using mic by (rule for_range_separations) (simp add: micro_stage_separations)
    moreover have "N_mic = 0 \<or> adim \<noteq> 0"
    proof (cases N_mic)
      case (Suc n)
      from mic obtain s where "micro_stage A_mic B_mic L0 L_lambda R_mic (length B_mic) adim
                 xmin_mic xmax_mic (Some d) 0 st' = Inr s"
        unfolding Suc by (blast dest: for_range_first)
      then show ?thesis using micro_stage_separations by blast
    qed simp
    ultimately show ?thesis
      using none by (simp add: pr Some input_bounds_separations)
  qed
qed

text \<open>
  Claim C10. With a collision distance \<open>d\<close> supplied, the problem of \<open>conventional_solve\<close>
  contains the separation constraint of the blocks \<open>idx\<close> and \<open>jdx\<close> at stage \<open>t\<close> exactly
  when \<open>t < N\<close> and \<open>idx < jdx < nx // adim\<close>. The problems of \<open>microcoupling_solve\<close> and
  \<open>mesocoupling_solve\<close> contain it exactly when \<open>t\<close> is a stage and
  \<open>idx < jdx < nx // adim - 1\<close> (and, for the two-scale solve, \<open>L\<close> is supplied), so none
  of their separation constraints involves the last block \<open>nx // adim - 1\<close>.
\<close>

theorem separation_constraints_per_solver:
  "(conventional_problem A0 B0 N Q R P x0 adim umax umin xmin xmax x_star_in (Some d) = Inr prc
      \<longrightarrow> (\<forall>t idx jdx. separation Var_x adim d t idx jdx \<in> set (snd prc)
              \<longleftrightarrow> t < N \<and> idx < jdx \<and> jdx < length B0 div adim))
   \<and> (microcoupling_problem A0 B0 N Q R P x0 adim N_cpl L L_lambda
         umax umin xmin xmax x_star_in (Some d) = Inr prm
      \<longrightarrow> (\<forall>t idx jdx. separation Var_x adim d t idx jdx \<in> set (snd prm)
              \<longleftrightarrow> t < N \<and> idx < jdx \<and> jdx < length B0 div adim - 1)
        \<and> (\<forall>t idx. separation Var_x adim d t idx (length B0 div adim - 1) \<notin> set (snd prm)
                  \<and> separation Var_x adim d t (length B0 div adim - 1) idx \<notin> set (snd prm)))
   \<and> (mesocoupling_problem A_mes B_mes N_mes Q R_mes P x0_mes adim
         A_mic B_mic N_mic R_mic x0_mic L L_lambda
         umax_mes umin_mes umax_mic umin_mic xmin_mes xmax_mes xmin_mic xmax_mic
         x_star_in (Some d) = Inr prs
      \<longrightarrow> (\<forall>t idx jdx. separation Var_x_mic adim d t idx jdx \<in> set (snd prs)
              \<longleftrightarrow> L \<noteq> None \<and> t < N_mic \<and> idx < jdx \<and> jdx < length B_mic div adim - 1)
        \<and> (\<forall>t idx. separation Var_x_mic adim d t idx (length B_mic div adim - 1) \<notin> set (snd prs)
                  \<and> separation Var_x_mic adim d t (length B_mic div adim - 1) idx \<notin> set (snd prs)))"
proof (intro conjI impI)
  assume a: "conventional_problem A0 B0 N Q R P x0 adim umax umin xmin xmax x_star_in (Some d) = Inr prc"
  show "\<forall>t idx jdx. separation Var_x adim d t idx jdx \<in> set (snd prc)
              \<longleftrightarrow> t < N \<and> idx < jdx \<and> jdx < length B0 div adim"
  proof (intro allI)
    fix t idx jdx
    show "separation Var_x adim d t idx jdx \<in> set (snd prc)
              \<longleftrightarrow> t < N \<and> idx < jdx \<and> jdx < length B0 div adim"
      using conventional_problem_separations [OF a]
      by (intro separation_member_stages [where n = "length B0 div adim"]) simp_all
  qed
next
  assume a: "microcoupling_problem A0 B0 N Q R P x0 adim N_cpl L L_lambda
         umax umin xmin xmax x_star_in (Some d) = Inr prm"
  have iff: "separation Var_x adim d t idx jdx \<in> set (snd prm)
              \<longleftrightarrow> t < N \<and> idx < jdx \<and> jdx < length B0 div adim - 1" for t idx jdx
    using microcoupling_problem_separations [OF a]
    by (intro separation_member_stages [where n = "length B0 div adim"]) simp_all
  then show "\<forall>t idx jdx. separation Var_x adim d t idx jdx \<in> set (snd prm)
              \<longleftrightarrow> t < N \<and> idx < jdx \<and> jdx < length B0 div adim - 1"
    by blast
  show "\<forall>t idx. separation Var_x adim d t idx (length B0 div adim - 1) \<notin> set (snd prm)
                  \<and> separation Var_x adim d t (length B0 div adim - 1) idx \<notin> set (snd prm)"
    using iff by auto
next
  assume a: "mesocoupling_problem A_mes B_mes N_mes Q R_mes P x0_mes adim
         A_mic B_mic N_mic R_mic x0_mic L L_lambda
         umax_mes umin_mes umax_mic umin_mic xmin_mes xmax_mes xmin_mic xmax_mic
         x_star_in (Some d) = Inr prs"
  have iff: "separation Var_x_mic adim d t idx jdx \<in> set (snd prs)
              \<longleftrightarrow> L \<noteq> None \<and> t < N_mic \<and> idx < jdx \<and> jdx < length B_mic div adim - 1" for t idx jdx
  proof (cases L)
    case None
    then have "filter is_separation (snd prs) = []"
      using mesocoupling_problem_separations [OF a] by simp
    then have "separation Var_x_mic adim d t idx jdx \<notin> set (filter is_separation (snd prs))"
      by simp
    then show ?thesis
      using None by (simp add: separation_def)
  next
    case (Some L0)
    have "separation Var_x_mic adim d t idx jdx \<in> set (snd prs)
              \<longleftrightarrow> t < N_mic \<and> idx < jdx \<and> jdx < length B_mic div adim - 1"
      using mesocoupling_problem_separations [OF a] Some
      by (intro separation_member_stages [where n = "length B_mic div adim"]) simp_all
    then show ?thesis using Some by simp
  qed
  then show "\<forall>t idx jdx. separation Var_x_mic adim d t idx jdx \<in> set (snd prs)
              \<longleftrightarrow> L \<noteq> None \<and> t < N_mic \<and> idx < jdx \<and> jdx < length B_mic div adim - 1"
    by blast
  show "\<forall>t idx. separation Var_x_mic adim d t idx (length B_mic div adim - 1) \<notin> set (snd prs)
                  \<and> separation Var_x_mic adim d t (length B_mic div adim - 1) idx \<notin> set (snd prs)"
    using iff by auto
qed

theorem separation_constraints_per_solver_witness:
  "\<exists>prc prm prs.
     conventional_problem [[1], [1]] [[1], [1], [1]] 1 [[1]] [[1]] [[1]] [0] 1
        None None None None None (Some 1) = Inr prc
   \<and> microcoupling_problem [[1], [1]] [[1], [1], [1]] 1 [[1]] [[1]] [[1]] [0] 1 1 (Some [[1]]) 1
        None None None None None (Some 1) = Inr prm
   \<and> mesocoupling_problem [[1]] [[1]] 1 [[1]] [[1]] [[1]] [0] 1
        [[1], [1]] [[1], [1], [1]] 1 [[1]] [0] (Some [[1]]) 1
        None None None None None None None None None (Some 1) = Inr prs
   \<and> separation Var_x 1 1 0 0 1 \<in> set (snd prc)
   \<and> separation Var_x 1 1 0 0 2 \<in> set (snd prc)
   \<and> separation Var_x 1 1 0 1 2 \<in> set (snd prc)
   \<and> separation Var_x 1 1 0 0 1 \<in> set (snd prm)
   \<and> separation Var_x 1 1 0 0 2 \<notin> set (snd prm)
   \<and> separation Var_x 1 1 0 1 2 \<notin> set (snd prm)
   \<and> separation Var_x_mic 1 1 0 0 1 \<in> set (snd prs)
   \<and> separation Var_x_mic 1 1 0 0 2 \<notin> set (snd prs)
   \<and> separation Var_x_mic 1 1 0 1 2 \<notin> set (snd prs)"
proof -
  obtain prc where c: "conventional_problem [[1], [1]] [[1], [1], [1]] 1 [[1]] [[1]] [[1]] [0] 1
        None None None None None (Some 1) = Inr prc"
    by (simp add: problem_defs)
  obtain prm where m: "microcoupling_problem [[1], [1]] [[1], [1], [1]] 1 [[1]] [[1]] [[1]] [0] 1 1 (Some [[1]]) 1
        None None None None None (Some 1) = Inr prm"
    by (simp add: problem_defs)
  obtain prs where s: "mesocoupling_problem [[1]] [[1]] 1 [[1]] [[1]] [[1]] [0] 1
        [[1], [1]] [[1], [1], [1]] 1 [[1]] [0] (Some [[1]]) 1
        None None None None None None None None None (Some 1) = Inr prs"
    by (simp add: problem_defs)
  note sep = separation_constraints_per_solver
    [where ?A0.0 = "[[1], [1]]" and ?B0.0 = "[[1], [1], [1]]" and N = 1 and Q = "[[1]]"
       and R = "[[1]]" and P = "[[1]]" and ?x0.0 = "[0]" and adim = 1
       and umax = None and umin = None and xmin = None and xmax = None and x_star_in = None
       and d = 1 and prc = prc and N_cpl = 1 and L = "Some [[1]]" and L_lambda = 1 and prm = prm
       and A_mes = "[[1]]" and B_mes = "[[1]]" and N_mes = 1 and R_mes = "[[1]]"
       and x0_mes = "[0]" and A_mic = "[[1], [1]]" and B_mic = "[[1], [1], [1]]" and N_mic = 1
       and R_mic = "[[1]]" and x0_mic = "[0]"
       and umax_mes = None and umin_mes = None and umax_mic = None and umin_mic = None
       and xmin_mes = None and xmax_mes = None and xmin_mic = None and xmax_mic = None
       and prs = prs]
  have pc: "separation Var_x 1 1 t idx jdx \<in> set (snd prc)
              \<longleftrightarrow> t < 1 \<and> idx < jdx \<and> jdx < 3" for t idx jdx
    using sep [THEN conjunct1, THEN mp, OF c] by (simp add: eval_nat_numeral)
  have pm: "separation Var_x 1 1 t idx jdx \<in> set (snd prm)
              \<longleftrightarrow> t < 1 \<and> idx < jdx \<and> jdx < 2" for t idx jdx
    using sep [THEN conjunct2, THEN conjunct1, THEN mp, OF m, THEN conjunct1] by (simp add: eval_nat_numeral)
  have ps: "separation Var_x_mic 1 1 t idx jdx \<in> set (snd prs)
              \<longleftrightarrow> t < 1 \<and> idx < jdx \<and> jdx < 2" for t idx jdx
    using sep [THEN conjunct2, THEN conjunct2, THEN mp, OF s, THEN conjunct1] by (simp add: eval_nat_numeral)
  have "separation Var_x 1 1 0 0 1 \<in> set (snd prc)"
    "separation Var_x 1 1 0 0 2 \<in> set (snd prc)"
    "separation Var_x 1 1 0 1 2 \<in> set (snd prc)"
    "separation Var_x 1 1 0 0 1 \<in> set (snd prm)"
    "separation Var_x 1 1 0 0 2 \<notin> set (snd prm)"
    "separation Var_x 1 1 0 1 2 \<notin> set (snd prm)"
    "separation Var_x_mic 1 1 0 0 1 \<in> set (snd prs)"
    "separation Var_x_mic 1 1 0 0 2 \<notin> set (snd prs)"
    "separation Var_x_mic 1 1 0 1 2 \<notin> set (snd prs)"
    unfolding pc pm ps by simp_all
  with c m s show ?thesis by blast
qed


section \<open>Properties of the orchestrator\<close>

lemmas eval_defs =
  re_eval_system_def re_eval_clusters_def cluster_labels_def
  build_cluster_def LinearClusterNd_init_def update_centroid_def copy_member_state_def
  set_row_def sub_rows_def broadcastable_def stretch2_def np_mean_def norm2_def
  mean_axis0_def zeros_def list_max_def Let_def upt_conv_Cons numeral_2_eq_2

lemma example_system_constructed:
  "MultiAgentSystem_init example_ext 2 1 1 [1] example_gen () ''hierarchy'' [2]
     = Inr example_system"
  by (simp add: MultiAgentSystem_init_def example_gen_def example_agents_def example_ext_def
        example_system_def eval_defs)

lemma example_system_fixed:
  "re_eval_system example_ext example_system = (None, example_system)"
  by (simp add: example_agents_def example_ext_def example_system_def eval_defs)

lemma for_each_invariant:
  assumes "I s" and "\<And>x s r s'. I s \<Longrightarrow> body x s = (r, s') \<Longrightarrow> I s'"
  shows "I (snd (for_each xs body s))"
  using assms(1)
proof (induction xs arbitrary: s)
  case Nil
  then show ?case by simp
next
  case (Cons x xs)
  obtain r s' where b: "body x s = (r, s')" by (cases "body x s")
  with Cons.prems assms(2) have "I s'" by blast
  with Cons.IH [of s'] b show ?case
    by (cases r) auto
qed

lemma cluster_labels_unsupported:
  "clust_algo s \<noteq> ''hierarchy'' \<Longrightarrow> clust_algo s \<noteq> ''hdbscan'' \<Longrightarrow>
   cluster_labels ext s = Inl (ValueError ''Cluster identification algorithm not implemented'')"
  by (simp add: cluster_labels_def)

lemma re_eval_clusters_unsupported:
  "clust_algo s \<noteq> ''hierarchy'' \<Longrightarrow> clust_algo s \<noteq> ''hdbscan'' \<Longrightarrow>
   re_eval_clusters ext s =
     (Some (ValueError ''Cluster identification algorithm not implemented''), s)"
  by (simp add: re_eval_clusters_def cluster_labels_unsupported)

text \<open>
  Claim C7. When the configured algorithm is neither \<open>'hierarchy'\<close> nor \<open>'hdbscan'\<close>,
  \<open>_re_eval_clusters\<close> raises the ValueError "Cluster identification algorithm not
  implemented" and leaves the system as it was. \<open>_re_eval_system\<close> and the constructor
  therefore never return normally: each raises, with the cluster labels, the number of
  clusters, the clusters and the centroids unchanged, and the exception is that
  ValueError whenever the steps before the clustering (the state generator, the
  gathering of the agent states, the distances to the goal) have not raised themselves.
\<close>

theorem unsupported_algorithm_raises:
  assumes "algo \<noteq> ''hierarchy''" and "algo \<noteq> ''hdbscan''"
  shows "(clust_algo s = algo \<longrightarrow>
            re_eval_clusters ext s =
              (Some (ValueError ''Cluster identification algorithm not implemented''), s)
          \<and> (\<exists>e s'. re_eval_system ext s = (Some e, s')
                 \<and> cluster_assignment s' = cluster_assignment s
                 \<and> (state_gathered s \<longrightarrow>
                      e = ValueError ''Cluster identification algorithm not implemented'')))
       \<and> (\<exists>e. MultiAgentSystem_init ext n adim cdim goal state_gen args algo params = Inl e
              \<and> (\<forall>ags. state_gen adim n args = Inr ags
                    \<and> state_gathered
                        \<lparr>n_agents = n, sys_agent_dim = adim, control_dim = cdim,
                         full_system_state = zeros n adim, system_goal = goal,
                         agents = ags, clust_algo = algo, clust_algo_params = params,
                         avg_goal_dist = PosInf, control_solution_time = 0,
                         clust_labels = [], n_clusters = 0, clusters = [],
                         cluster_centroids = []\<rparr>
                    \<longrightarrow> e = ValueError ''Cluster identification algorithm not implemented''))"
proof -
  let ?cfg = "ValueError ''Cluster identification algorithm not implemented''"
  have sys: "\<exists>e s'. re_eval_system ext s = (Some e, s')
                 \<and> cluster_assignment s' = cluster_assignment s
                 \<and> (state_gathered s \<longrightarrow> e = ?cfg)"
    if "clust_algo s = algo" for s :: MultiAgentSystem
  proof -
    obtain r M where g: "gather_states (agents s) (full_system_state s) = (r, M)"
      by (cases "gather_states (agents s) (full_system_state s)")
    show ?thesis
    proof (cases r)
      case (Some e)
      with g show ?thesis
        by (simp add: re_eval_system_def state_gathered_def cluster_assignment_def)
    next
      case None
      show ?thesis
      proof (cases "sub_rows M (system_goal s)")
        case (Inl e)
        with g None show ?thesis
          by (simp add: re_eval_system_def state_gathered_def cluster_assignment_def)
      next
        case (Inr d)
        with g None that assms show ?thesis
          by (simp add: re_eval_system_def re_eval_clusters_unsupported state_gathered_def
                cluster_assignment_def)
      qed
    qed
  qed
  have init: "\<exists>e. MultiAgentSystem_init ext n adim cdim goal state_gen args algo params = Inl e
              \<and> (\<forall>ags. state_gen adim n args = Inr ags
                    \<and> state_gathered
                        \<lparr>n_agents = n, sys_agent_dim = adim, control_dim = cdim,
                         full_system_state = zeros n adim, system_goal = goal,
                         agents = ags, clust_algo = algo, clust_algo_params = params,
                         avg_goal_dist = PosInf, control_solution_time = 0,
                         clust_labels = [], n_clusters = 0, clusters = [],
                         cluster_centroids = []\<rparr>
                    \<longrightarrow> e = ?cfg)"
  proof (cases "state_gen adim n args")
    case (Inl e)
    then show ?thesis by (simp add: MultiAgentSystem_init_def)
  next
    case (Inr ags)
    let ?init = "\<lparr>n_agents = n, sys_agent_dim = adim, control_dim = cdim,
                         full_system_state = zeros n adim, system_goal = goal,
                         agents = ags, clust_algo = algo, clust_algo_params = params,
                         avg_goal_dist = PosInf, control_solution_time = 0,
                         clust_labels = [], n_clusters = 0, clusters = [],
                         cluster_centroids = []\<rparr>"
    from sys [of ?init] obtain e s' where "re_eval_system ext ?init = (Some e, s')"
      and "state_gathered ?init \<longrightarrow> e = ?cfg"
      by auto
    with Inr show ?thesis by (simp add: MultiAgentSystem_init_def)
  qed
  show ?thesis
    using sys init re_eval_clusters_unsupported [of s ext] assms by blast
qed

theorem unsupported_algorithm_raises_witness:
  "''epsdel'' \<noteq> ''hierarchy'' \<and> ''epsdel'' \<noteq> ''hdbscan''
   \<and> clust_algo (example_system\<lparr>clust_algo := ''epsdel''\<rparr>) = ''epsdel''
   \<and> state_gathered (example_system\<lparr>clust_algo := ''epsdel''\<rparr>)
   \<and> re_eval_clusters example_ext (example_system\<lparr>clust_algo := ''epsdel''\<rparr>)
       = (Some (ValueError ''Cluster identification algorithm not implemented''),
          example_system\<lparr>clust_algo := ''epsdel''\<rparr>)
   \<and> (\<exists>s'. re_eval_system example_ext (example_system\<lparr>clust_algo := ''epsdel''\<rparr>)
              = (Some (ValueError ''Cluster identification algorithm not implemented''), s')
            \<and> cluster_assignment s' = cluster_assignment example_system)
   \<and> example_gen 1 2 () = Inr example_agents
   \<and> MultiAgentSystem_init example_ext 2 1 1 [1] example_gen () ''epsdel'' [2]
       = Inl (ValueError ''Cluster identification algorithm not implemented'')"
proof -
  let ?s = "example_system\<lparr>clust_algo := ''epsdel''\<rparr>"
  let ?init = "\<lparr>n_agents = 2, sys_agent_dim = 1, control_dim = 1,
              full_system_state = zeros 2 1, system_goal = [1],
              agents = example_agents, clust_algo = ''epsdel'', clust_algo_params = [2],
              avg_goal_dist = PosInf, control_solution_time = 0,
              clust_labels = [], n_clusters = 0, clusters = [],
              cluster_centroids = []\<rparr>"
  have h1: "''epsdel'' \<noteq> ''hierarchy''" and h2: "''epsdel'' \<noteq> ''hdbscan''" by simp_all
  have h3: "clust_algo ?s = ''epsdel''" by simp
  have h4: "state_gathered ?s"
    by (simp add: state_gathered_def example_system_def example_agents_def set_row_def
          sub_rows_def broadcastable_def)
  have h5: "example_gen 1 2 () = Inr example_agents" by (simp add: example_gen_def)
  have h6: "state_gathered ?init"
    by (simp add: state_gathered_def example_agents_def set_row_def zeros_def
          sub_rows_def broadcastable_def numeral_2_eq_2)
  note main = unsupported_algorithm_raises [OF h1 h2, of ?s example_ext 2 1 1 "[1]" example_gen "()" "[2]"]
  from main h3 have a: "re_eval_clusters example_ext ?s
       = (Some (ValueError ''Cluster identification algorithm not implemented''), ?s)"
    by blast
  from main h3 h4 have b: "\<exists>s'. re_eval_system example_ext ?s
              = (Some (ValueError ''Cluster identification algorithm not implemented''), s')
            \<and> cluster_assignment s' = cluster_assignment ?s"
    by blast
  have c: "cluster_assignment ?s = cluster_assignment example_system"
    by (simp add: cluster_assignment_def)
  from main h5 h6 have d: "MultiAgentSystem_init example_ext 2 1 1 [1] example_gen () ''epsdel'' [2]
       = Inl (ValueError ''Cluster identification algorithm not implemented'')"
    by blast
  show ?thesis
    using h1 h2 h3 h4 h5 a b c d by simp
qed

lemma update_system_simplified_raises:
  "clusters s \<noteq> [] \<Longrightarrow> update_system_simplified ext step_size s = (Some AttributeError, s)"
  by (cases "clusters s")
     (simp_all add: update_system_simplified_def simplified_step_def int_centroid_def)

text \<open>
  Claim C5, at an input where it fails. The system is the one the constructor builds
  from two agents; it has two clusters. The loop of \<open>update_system_simplified\<close> runs over
  the keys \<open>0, 1\<close> of the cluster dict; in the first iteration \<open>cluster.centroid\<close> is read
  from the integer \<open>0\<close>, which raises AttributeError. No control is computed, no agent
  moves and the system is not re-evaluated.
\<close>

theorem update_system_simplified_raises_AttributeError:
  "MultiAgentSystem_init example_ext 2 1 1 [1] example_gen () ''hierarchy'' [2]
     = Inr example_system
   \<and> map fst (clusters example_system) = [0, 1]
   \<and> update_system_simplified example_ext (1/2) example_system
     = (Some AttributeError, example_system)"
proof -
  have "clusters example_system \<noteq> []" by (simp add: example_system_def)
  then have "update_system_simplified example_ext (1/2) example_system
     = (Some AttributeError, example_system)"
    by (rule update_system_simplified_raises)
  moreover have "map fst (clusters example_system) = [0, 1]"
    by (simp add: example_system_def)
  ultimately show ?thesis
    using example_system_constructed by simp
qed

lemma propagate_input_frame:
  "propagate_input u ag = Inr ag' \<Longrightarrow> agent_frame ag' = agent_frame ag"
  by (auto simp: propagate_input_def agent_frame_def split: sum.splits)

lemma set_state_frame:
  "set_state v ag = Inr ag' \<Longrightarrow> agent_frame ag' = agent_frame ag"
  by (auto simp: set_state_def agent_frame_def split: if_splits)

lemma dict_set_frame:
  "map_of store k = Some ag \<Longrightarrow> agent_frame ag' = agent_frame ag
   \<Longrightarrow> dict_frame (dict_set store k ag') = dict_frame store"
  by (induction store) (auto simp: dict_frame_def)

lemma list_update_frame:
  assumes "d ! i = (adx, ag)" and "agent_frame ag' = agent_frame ag"
  shows "dict_frame (d[i := (adx, ag')]) = dict_frame d"
proof (cases "i < length d")
  case True
  with assms show ?thesis
    by (simp add: dict_frame_def map_update list_update_same_conv)
next
  case False
  then have "d[i := (adx, ag')] = d"
    by (intro list_update_beyond) simp
  then show ?thesis by simp
qed

lemma propagate_to_member_frame:
  "propagate_to_member u k store = (r, store') \<Longrightarrow> dict_frame store' = dict_frame store"
  by (auto simp: propagate_to_member_def dict_set_frame
           dest: propagate_input_frame split: option.splits sum.splits)

lemma cluster_propagate_input_frame:
  "dict_frame (fst (snd (cluster_propagate_input u (store, cl)))) = dict_frame store"
proof -
  have "dict_frame (snd (for_each (cluster_agents cl) (propagate_to_member u) store))
          = dict_frame store"
    by (rule for_each_invariant [where I = "\<lambda>st. dict_frame st = dict_frame store"])
       (auto dest: propagate_to_member_frame)
  then show ?thesis
    by (auto simp: cluster_propagate_input_def split: prod.splits option.splits)
qed

lemma build_cluster_static:
  "build_cluster cdx s = (r, s') \<Longrightarrow> static_part s' = static_part s"
  by (auto simp: build_cluster_def static_part_def Let_def split: if_splits sum.splits)

lemma re_eval_clusters_static:
  "static_part (snd (re_eval_clusters ext s)) = static_part s"
proof (cases "cluster_labels ext s")
  case (Inl e)
  then show ?thesis by (simp add: re_eval_clusters_def)
next
  case (Inr labels)
  let ?s2 = "s\<lparr>clust_labels := labels, n_clusters := list_max labels + 1, clusters := [],
                      cluster_centroids := []\<rparr>"
  have "static_part (snd (for_each [0..<nat (list_max labels + 1)] build_cluster ?s2))
          = static_part s"
    by (rule for_each_invariant [where I = "\<lambda>st. static_part st = static_part s"])
       (auto simp: static_part_def dest: build_cluster_static)
  with Inr show ?thesis
    by (auto simp: re_eval_clusters_def Let_def static_part_def)
qed

lemma re_eval_system_static:
  "static_part (snd (re_eval_system ext s)) = static_part s"
proof -
  obtain r M where g: "gather_states (agents s) (full_system_state s) = (r, M)"
    by (cases "gather_states (agents s) (full_system_state s)")
  show ?thesis
  proof (cases r)
    case (Some e)
    with g show ?thesis by (simp add: re_eval_system_def static_part_def)
  next
    case None
    show ?thesis
    proof (cases "sub_rows M (system_goal s)")
      case (Inl e)
      with g None show ?thesis by (simp add: re_eval_system_def static_part_def)
    next
      case (Inr d)
      with g None show ?thesis
        using re_eval_clusters_static
          [of ext "s\<lparr>full_system_state := M, avg_goal_dist := np_mean (map norm2 d)\<rparr>"]
        by (simp add: re_eval_system_def static_part_def)
    qed
  qed
qed

lemma static_part_frame:
  "static_part s' = static_part s \<Longrightarrow> system_frame s' = system_frame s"
  by (simp add: static_part_def system_frame_def)

lemma re_eval_system_frame:
  "re_eval_system ext s = (r, s') \<Longrightarrow> system_frame s' = system_frame s"
  using re_eval_system_static [of ext s] by (intro static_part_frame) simp

lemma system_frame_agents_update:
  "agents s ! i = (adx, ag) \<Longrightarrow> agent_frame ag' = agent_frame ag
   \<Longrightarrow> system_frame (s\<lparr>agents := (agents s)[i := (adx, ag')]\<rparr>) = system_frame s"
  by (simp add: system_frame_def list_update_frame)

lemma simplified_step_frame:
  "simplified_step ext step_size cluster s = (r, s') \<Longrightarrow> system_frame s' = system_frame s"
  by (auto simp: simplified_step_def int_centroid_def)

lemma update_system_simplified_frame:
  "system_frame (snd (update_system_simplified ext step_size s)) = system_frame s"
  unfolding update_system_simplified_def
  by (rule for_each_invariant [where I = "\<lambda>st. system_frame st = system_frame s"])
     (auto dest: simplified_step_frame)

lemma distributed_step_frame:
  assumes "distributed_step ext Q R P n_t umax umin i (c, s) = (r, c', s')"
  shows "system_frame s' = system_frame s"
proof -
  obtain adx agent where a: "agents s ! i = (adx, agent)" by (cases "agents s ! i")
  show ?thesis
  proof (cases "use_modeling_tool ext (agent_A agent) (agent_B agent) n_t Q R P (state agent)
                   (Some (system_goal s)) umax umin")
    case (Inl e)
    with assms a show ?thesis by (simp add: distributed_step_def)
  next
    case (Inr res)
    obtain X U ca where res: "res = (X, U, ca)" by (cases res)
    show ?thesis
    proof (cases "last_column X")
      case (Inl e)
      with assms a Inr res show ?thesis by (simp add: distributed_step_def)
    next
      case v: (Inr v)
      show ?thesis
      proof (cases "set_state v agent")
        case (Inl e)
        with assms a Inr res v show ?thesis by (simp add: distributed_step_def)
      next
        case ag: (Inr agent')
        from assms a Inr res v ag
        have "re_eval_system ext (s\<lparr>agents := (agents s)[i := (adx, agent')]\<rparr>) = (r, s')"
          by (simp add: distributed_step_def split: prod.splits)
        then have "system_frame s' = system_frame (s\<lparr>agents := (agents s)[i := (adx, agent')]\<rparr>)"
          by (rule re_eval_system_frame)
        also have "\<dots> = system_frame s"
          using a set_state_frame [OF ag] by (rule system_frame_agents_update)
        finally show ?thesis .
      qed
    qed
  qed
qed

lemma update_system_mpc_distributed_frame:
  "system_frame (snd (update_system_mpc_distributed ext time_0 time_1 Q R P n_t umax umin s))
     = system_frame s"
proof -
  obtain r c' s' where loop: "for_each [0..<length (agents s)]
           (distributed_step ext Q R P n_t umax umin) (0, s) = (r, c', s')"
    by (cases "for_each [0..<length (agents s)]
           (distributed_step ext Q R P n_t umax umin) (0, s)") auto
  have "system_frame (snd (snd (for_each [0..<length (agents s)]
           (distributed_step ext Q R P n_t umax umin) (0, s)))) = system_frame s"
    by (rule for_each_invariant [where I = "\<lambda>cs. system_frame (snd cs) = system_frame s"])
       (auto dest: distributed_step_frame)
  with loop have f: "system_frame s' = system_frame s" by simp
  then have "system_frame (s'\<lparr>control_solution_time := t\<rparr>) = system_frame s" for t
    by (simp add: system_frame_def)
  with f loop show ?thesis
    by (cases r) (simp_all add: update_system_mpc_distributed_def Let_def)
qed

lemma commit_step_frame:
  assumes "commit_step X i s = (r, s')"
  shows "system_frame s' = system_frame s"
proof -
  obtain adx agent where a: "agents s ! i = (adx, agent)" by (cases "agents s ! i")
  show ?thesis
  proof (cases "rows_last_column X (adx * sys_agent_dim s) ((adx + 1) * sys_agent_dim s)")
    case (Inl e)
    with assms a show ?thesis by (simp add: commit_step_def)
  next
    case v: (Inr v)
    show ?thesis
    proof (cases "set_state v agent")
      case (Inl e)
      with assms a v show ?thesis by (simp add: commit_step_def)
    next
      case ag: (Inr agent')
      from assms a v ag have "s' = s\<lparr>agents := (agents s)[i := (adx, agent')]\<rparr>"
        by (simp add: commit_step_def)
      then show ?thesis
        using system_frame_agents_update [OF a set_state_frame [OF ag]] by simp
    qed
  qed
qed

lemma update_system_mpc_frame:
  "system_frame (snd (update_system_mpc ext time_0 time_1 Q R P n_t umax umin s))
     = system_frame s"
proof (cases "joint_dynamics (sys_agent_dim s) (control_dim s) (agents s)
             (zeros (sys_agent_dim s * n_agents s) (sys_agent_dim s * n_agents s),
              zeros (sys_agent_dim s * n_agents s) (control_dim s * n_agents s))")
  case (Inl e)
  then show ?thesis by (simp add: update_system_mpc_def)
next
  case (Inr AB)
  obtain A0 B0 where AB: "AB = (A0, B0)" by (cases AB)
  show ?thesis
  proof (cases "use_modeling_tool ext A0 B0 n_t Q R P (concat (full_system_state s))
                  (Some (kron (ones (n_agents s)) (system_goal s))) umax umin")
    case (Inl e)
    with Inr AB show ?thesis by (simp add: update_system_mpc_def)
  next
    case res: (Inr res)
    obtain X U c where r: "res = (X, U, c)" by (cases res)
    let ?s1 = "s\<lparr>control_solution_time := control_solution_time s + (time_1 - time_0)\<rparr>"
    obtain r1 s1 where loop: "for_each [0..<length (agents s)] (commit_step X) ?s1 = (r1, s1)"
      by (cases "for_each [0..<length (agents s)] (commit_step X) ?s1")
    have "system_frame (snd (for_each [0..<length (agents s)] (commit_step X) ?s1))
            = system_frame s"
      by (rule for_each_invariant [where I = "\<lambda>st. system_frame st = system_frame s"])
         (auto simp: system_frame_def dest: commit_step_frame)
    with loop have f1: "system_frame s1 = system_frame s" by simp
    show ?thesis
    proof (cases r1)
      case (Some e)
      with Inr AB res r loop f1 show ?thesis by (simp add: update_system_mpc_def)
    next
      case None
      obtain r2 s2 where re: "re_eval_system ext s1 = (r2, s2)"
        by (cases "re_eval_system ext s1")
      from re_eval_system_frame [OF re] f1 have "system_frame s2 = system_frame s" by simp
      with Inr AB res r loop None re show ?thesis
        by (cases r2) (simp_all add: update_system_mpc_def)
    qed
  qed
qed

text \<open>
  Claim C9. \<open>propagate_input\<close> and \<open>set_state\<close> of an agent, \<open>propagate_input\<close> of a cluster,
  \<open>update_system_simplified\<close>, \<open>update_system_mpc_distributed\<close> and \<open>update_system_mpc\<close>
  leave the matrices \<open>A\<close> and \<open>B\<close> and the dimension of every agent as they were,
  whether they return or raise; the three system operations also keep the keys of the
  agent dict, the number of agents, the dimensions, the goal and the clustering
  configuration.
\<close>

theorem mutators_preserve_dynamics:
  "(\<forall>ag'. propagate_input u ag = Inr ag' \<longrightarrow> agent_frame ag' = agent_frame ag)
   \<and> (\<forall>ag'. set_state v ag = Inr ag' \<longrightarrow> agent_frame ag' = agent_frame ag)
   \<and> dict_frame (fst (snd (cluster_propagate_input u (store, cl)))) = dict_frame store
   \<and> system_frame (snd (update_system_simplified ext step_size s)) = system_frame s
   \<and> system_frame (snd (update_system_mpc_distributed ext time_0 time_1 Q R P n_t umax umin s))
       = system_frame s
   \<and> system_frame (snd (update_system_mpc ext time_0 time_1 Q R P n_t umax umin s))
       = system_frame s"
proof (intro conjI allI impI)
  fix ag' assume "propagate_input u ag = Inr ag'"
  then show "agent_frame ag' = agent_frame ag" by (rule propagate_input_frame)
next
  fix ag' assume "set_state v ag = Inr ag'"
  then show "agent_frame ag' = agent_frame ag" by (rule set_state_frame)
qed (rule cluster_propagate_input_frame update_system_simplified_frame
       update_system_mpc_distributed_frame update_system_mpc_frame)+

theorem mutators_preserve_dynamics_witness:
  "propagate_input [5] \<lparr>agent_A = [[1]], agent_B = [[1]], state = [2], agent_dim = 1\<rparr>
     = Inr \<lparr>agent_A = [[1]], agent_B = [[1]], state = [7], agent_dim = 1\<rparr>
   \<and> agent_frame \<lparr>agent_A = [[1]], agent_B = [[1]], state = [7], agent_dim = 1\<rparr>
     = agent_frame \<lparr>agent_A = [[1]], agent_B = [[1]], state = [2], agent_dim = 1\<rparr>
   \<and> set_state [3] \<lparr>agent_A = [[1]], agent_B = [[1]], state = [2], agent_dim = 1\<rparr>
     = Inr \<lparr>agent_A = [[1]], agent_B = [[1]], state = [3], agent_dim = 1\<rparr>
   \<and> agent_frame \<lparr>agent_A = [[1]], agent_B = [[1]], state = [3], agent_dim = 1\<rparr>
     = agent_frame \<lparr>agent_A = [[1]], agent_B = [[1]], state = [2], agent_dim = 1\<rparr>
   \<and> dict_frame (fst (snd (cluster_propagate_input [5]
         (example_agents, \<lparr>cluster_agents = [1], cluster_n_agents = 1,
                            full_cluster_state = [[2]], centroid = [2]\<rparr>))))
     = dict_frame example_agents
   \<and> system_frame (snd (update_system_mpc_distributed example_ext 0 1 [[1]] [[1]] [[1]] 1
         None None example_system)) = system_frame example_system
   \<and> system_frame (snd (update_system_mpc example_ext 0 1 [[1]] [[1]] [[1]] 1
         None None example_system)) = system_frame example_system"
proof -
  let ?ag = "\<lparr>agent_A = [[1]], agent_B = [[1]], state = [2], agent_dim = 1\<rparr>"
  let ?cl = "\<lparr>cluster_agents = [1], cluster_n_agents = 1,
              full_cluster_state = [[2]], centroid = [2]\<rparr>"
  note main = mutators_preserve_dynamics
    [of "[5]" ?ag "[3]" example_agents ?cl example_ext 1 example_system 0 1 "[[1]]" "[[1]]" "[[1]]" 1
        None None]
  have p: "propagate_input [5] ?ag
     = Inr \<lparr>agent_A = [[1]], agent_B = [[1]], state = [7], agent_dim = 1\<rparr>"
    by (simp add: propagate_input_def matmul_vec_def has_cols_def dot_def np_add_def
          broadcast2_def broadcastable_def stretch2_def)
  have q: "set_state [3] ?ag
     = Inr \<lparr>agent_A = [[1]], agent_B = [[1]], state = [3], agent_dim = 1\<rparr>"
    by (simp add: set_state_def)
  from main p have "agent_frame \<lparr>agent_A = [[1]], agent_B = [[1]], state = [7], agent_dim = 1\<rparr>
     = agent_frame ?ag"
    by blast
  moreover from main q have "agent_frame \<lparr>agent_A = [[1]], agent_B = [[1]], state = [3], agent_dim = 1\<rparr>
     = agent_frame ?ag"
    by blast
  ultimately show ?thesis
    using main p q by blast
qed


section \<open>Re-evaluating a system in working order\<close>

















section \<open>The distributed update\<close>





















section \<open>The centralised update\<close>


lemma has_shape_row:
  "has_shape M r c \<Longrightarrow> p < r \<Longrightarrow> length (M ! p) = c"
  by (simp add: has_shape_def has_cols_def)
























end
